theory Spec2Isabelle
  imports Main "HOL-Library.AList"
begin

section \<open>Values and documents\<close>

text \<open>
  The values that travel through the API: decoded request bodies, the dictionaries
  \<^verbatim>\<open>model_dump()\<close> returns, and the fields of stored documents.  A dictionary is an
  association list: Python dictionaries and stored documents keep the order of their
  keys.  A \<^verbatim>\<open>datetime\<close> is the integer number of microseconds since the epoch.  A float
  is the pair \<open>(m, e)\<close> that stands for \<open>m\<close> times two to the power \<open>e\<close>.
\<close>

datatype pyval =
    PNone
  | PBool bool
  | PInt int
  | PStr string
  | PList "pyval list"
  | PDict "(string \<times> pyval) list"
  | PDatetime int
  | PFloat int int

type_synonym doc = "(string \<times> pyval) list"

section \<open>Request models (main.py, lines 67-128, 285-286, 336-337)\<close>

text \<open>
  A pydantic class is a list of field declarations, in the order of the class body.
  Each field has a name, an annotation and either no default (required) or a default.
  The annotations that occur in main.py are \<^verbatim>\<open>str\<close>, \<^verbatim>\<open>Optional[str]\<close>, \<^verbatim>\<open>List[str]\<close>,
  \<^verbatim>\<open>Optional[Dict[str, Any]]\<close>, \<^verbatim>\<open>Dict[str, int]\<close> and \<^verbatim>\<open>datetime\<close>.
\<close>

datatype ftype = Str | OptionalStr | ListStr | OptionalDictAny | DictStrInt | Datetime

datatype fdefault = Required | Default pyval

type_synonym field = "string \<times> ftype \<times> fdefault"

type_synonym model_class = "field list"

definition JobIn :: model_class where
  "JobIn =
    [(''title'', Str, Required),
     (''department'', Str, Required),
     (''location'', Str, Default (PStr ''Remote'')),
     (''status'', Str, Default (PStr ''open'')),
     (''owner'', Str, Required),
     (''description'', OptionalStr, Default PNone)]"

definition CandidateIn :: model_class where
  "CandidateIn =
    [(''name'', Str, Required),
     (''email'', Str, Required),
     (''phone'', OptionalStr, Default PNone),
     (''current_role'', OptionalStr, Default PNone),
     (''stage'', Str, Default (PStr ''applied'')),
     (''resume_url'', OptionalStr, Default PNone),
     (''skills'', ListStr, Default (PList [])),
     (''assessment_scores'', OptionalDictAny, Default PNone),
     (''notes'', OptionalStr, Default PNone),
     (''job_id'', OptionalStr, Default PNone),
     (''salary_expectation'', OptionalStr, Default PNone),
     (''avatar_url'', OptionalStr, Default PNone)]"

definition InterviewIn :: model_class where
  "InterviewIn =
    [(''candidate_id'', Str, Required),
     (''candidate_name'', Str, Required),
     (''interviewer'', Str, Required),
     (''time'', Datetime, Required),
     (''status'', Str, Default (PStr ''scheduled'')),
     (''meeting_url'', OptionalStr, Default PNone)]"

definition FeedbackIn :: model_class where
  "FeedbackIn =
    [(''interview_id'', Str, Required),
     (''candidate_id'', Str, Required),
     (''ratings'', DictStrInt, Required),
     (''recommendation'', Str, Required),
     (''comments'', OptionalStr, Default PNone)]"

definition OfferIn :: model_class where
  "OfferIn =
    [(''candidate_id'', Str, Required),
     (''candidate_name'', Str, Required),
     (''role'', Str, Required),
     (''proposed_salary'', Str, Required),
     (''status'', Str, Default (PStr ''draft'')),
     (''template_name'', OptionalStr, Default PNone)]"

definition OnboardingTaskIn :: model_class where
  "OnboardingTaskIn =
    [(''candidate_id'', Str, Required),
     (''task'', Str, Required),
     (''assignee'', Str, Default (PStr ''HR'')),
     (''status'', Str, Default (PStr ''pending''))]"

definition MessageIn :: model_class where
  "MessageIn =
    [(''sender'', Str, Required),
     (''receiver'', Str, Required),
     (''content'', Str, Required)]"

definition StageUpdate :: model_class where
  "StageUpdate = [(''stage'', Str, Required)]"

definition OfferStatus :: model_class where
  "OfferStatus = [(''status'', Str, Required)]"

subsection \<open>Validation of a request body against a model class\<close>

text \<open>
  The framework validates the decoded body before the handler runs.  A field that the
  body lacks takes its default, or is reported missing when it has none; a field that
  the body carries is read according to its annotation, and the instance holds what was
  read.  Keys of the body that the class does not declare are ignored.  All offending
  fields are reported together.

  A \<^verbatim>\<open>str\<close> is read from a string only, and is that string; so for \<^verbatim>\<open>Optional[str]\<close> (which
  also reads null), \<^verbatim>\<open>List[str]\<close> and \<^verbatim>\<open>Dict[str, Any]\<close>: what is read is what was
  submitted.  An \<^verbatim>\<open>int\<close> is read from an integer and, the validation being lax, from a
  boolean (true is 1); a \<^verbatim>\<open>datetime\<close> is read from text or from a number.  Which other
  values the validation library reads as an int (numeric strings, floats without a
  fraction), and which values it reads as which \<^verbatim>\<open>datetime\<close>, is the library's matter: it is
  the parameter \<open>lib\<close> of the validation, and nothing is assumed of it.
\<close>

record lax =
  read_int :: "pyval \<Rightarrow> int option"
  read_datetime :: "pyval \<Rightarrow> int option"

text \<open>
  The library that reads nothing beyond integers and booleans.  The concrete runs below
  use it; their bodies hold strings, integers and booleans only, which every library
  reads alike.
\<close>

definition no_readings :: lax where
  "no_readings = \<lparr>read_int = (\<lambda>v. None), read_datetime = (\<lambda>v. None)\<rparr>"

fun is_str :: "pyval \<Rightarrow> bool" where
  "is_str (PStr s) = True"
| "is_str v = False"

fun as_int :: "lax \<Rightarrow> pyval \<Rightarrow> int option" where
  "as_int lib (PInt n) = Some n"
| "as_int lib (PBool b) = Some (if b then 1 else 0)"
| "as_int lib v = read_int lib v"

fun as_int_dict :: "lax \<Rightarrow> (string \<times> pyval) list \<Rightarrow> (string \<times> pyval) list option" where
  "as_int_dict lib [] = Some []"
| "as_int_dict lib ((k, v) # kvs) =
     (case as_int lib v of
        None \<Rightarrow> None
      | Some n \<Rightarrow>
          (case as_int_dict lib kvs of
             None \<Rightarrow> None
           | Some rest \<Rightarrow> Some ((k, PInt n) # rest)))"

text \<open>What validation reads from a value under an annotation; \<open>None\<close> when it rejects it.\<close>

fun coerce :: "lax \<Rightarrow> ftype \<Rightarrow> pyval \<Rightarrow> pyval option" where
  "coerce lib Str v = (if is_str v then Some v else None)"
| "coerce lib OptionalStr v = (if v = PNone \<or> is_str v then Some v else None)"
| "coerce lib ListStr v =
     (case v of PList xs \<Rightarrow> (if list_all is_str xs then Some v else None) | _ \<Rightarrow> None)"
| "coerce lib OptionalDictAny v =
     (case v of PNone \<Rightarrow> Some v | PDict kvs \<Rightarrow> Some v | _ \<Rightarrow> None)"
| "coerce lib DictStrInt v =
     (case v of PDict kvs \<Rightarrow> map_option PDict (as_int_dict lib kvs) | _ \<Rightarrow> None)"
| "coerce lib Datetime v = map_option PDatetime (read_datetime lib v)"

datatype verr = Missing string | Invalid string

fun validate_field :: "lax \<Rightarrow> doc \<Rightarrow> field \<Rightarrow> verr + (string \<times> pyval)" where
  "validate_field lib body (name, ty, dflt) =
     (case map_of body name of
        None \<Rightarrow> (case dflt of Required \<Rightarrow> Inl (Missing name) | Default v \<Rightarrow> Inr (name, v))
      | Some v \<Rightarrow>
          (case coerce lib ty v of
             None \<Rightarrow> Inl (Invalid name)
           | Some w \<Rightarrow> Inr (name, w)))"

fun validate :: "lax \<Rightarrow> model_class \<Rightarrow> doc \<Rightarrow> verr list + doc" where
  "validate lib [] body = Inr []"
| "validate lib (f # fs) body =
     (case validate_field lib body f of
        Inl e \<Rightarrow> (case validate lib fs body of Inl es \<Rightarrow> Inl (e # es) | Inr m \<Rightarrow> Inl [e])
      | Inr kv \<Rightarrow> (case validate lib fs body of Inl es \<Rightarrow> Inl es | Inr m \<Rightarrow> Inr (kv # m)))"

text \<open>
  A validated instance is kept as the dictionary of its fields in declaration order, so
  \<^verbatim>\<open>model_dump()\<close> returns it as it is, and an attribute is a lookup.
\<close>

definition model_dump :: "doc \<Rightarrow> doc" where
  "model_dump m = m"

definition getattr :: "doc \<Rightarrow> string \<Rightarrow> pyval option" where
  "getattr m name = map_of m name"

section \<open>The document store\<close>

text \<open>
  The store handle \<^verbatim>\<open>db\<close> is imported from the module \<^verbatim>\<open>database\<close>; it is \<^verbatim>\<open>None\<close> when no
  store is configured.  A collection is the list of its documents in natural order; a
  document carries its identifier apart from its fields.  Identifiers are twelve-byte
  object ids, kept as the number they encode.  A collection that was never written is
  empty.
\<close>

record document =
  doc_id :: nat
  doc_fields :: doc

record store =
  colls :: "string \<Rightarrow> document list"
  next_oid :: nat

text \<open>A store that is connected and holds nothing yet.\<close>

definition empty_store :: store where
  "empty_store = \<lparr>colls = (\<lambda>c. []), next_oid = 0\<rparr>"

subsection \<open>Object ids as text\<close>

definition hex_digits :: string where
  "hex_digits = ''0123456789abcdef''"

fun hexw :: "nat \<Rightarrow> nat \<Rightarrow> string" where
  "hexw 0 n = []"
| "hexw (Suc k) n = hexw k (n div 16) @ [hex_digits ! (n mod 16)]"

text \<open>\<^verbatim>\<open>str(oid)\<close>: twenty-four lower-case hexadecimal digits.\<close>

definition oid_str :: "nat \<Rightarrow> string" where
  "oid_str n = hexw 24 n"

definition hexval :: "char \<Rightarrow> nat option" where
  "hexval c = map_of
     [(CHR ''0'', 0), (CHR ''1'', 1), (CHR ''2'', 2), (CHR ''3'', 3), (CHR ''4'', 4),
      (CHR ''5'', 5), (CHR ''6'', 6), (CHR ''7'', 7), (CHR ''8'', 8), (CHR ''9'', 9),
      (CHR ''a'', 10), (CHR ''b'', 11), (CHR ''c'', 12), (CHR ''d'', 13), (CHR ''e'', 14),
      (CHR ''f'', 15), (CHR ''A'', 10), (CHR ''B'', 11), (CHR ''C'', 12), (CHR ''D'', 13),
      (CHR ''E'', 14), (CHR ''F'', 15)] c"

fun unhex :: "nat \<Rightarrow> string \<Rightarrow> nat option" where
  "unhex acc [] = Some acc"
| "unhex acc (c # cs) =
     (case hexval c of None \<Rightarrow> None | Some d \<Rightarrow> unhex (16 * acc + d) cs)"

text \<open>
  \<^verbatim>\<open>ObjectId(s)\<close> for a string \<open>s\<close>: the id when \<open>s\<close> is twenty-four hexadecimal digits,
  otherwise the exception \<^verbatim>\<open>InvalidId\<close> (here \<open>None\<close>).
\<close>

definition ObjectId :: "string \<Rightarrow> nat option" where
  "ObjectId s = (if length s = 24 then unhex 0 s else None)"

subsection \<open>The adapter: create_document and get_documents\<close>

datatype exn =
    StorageUnavailable
  | InvalidId string
  | StoreError string
  | AttributeError string
  | TypeError
  | NotImplementedError

text \<open>
  Modelled from the spec: the insertion that \<^verbatim>\<open>create_document\<close> performs in the store,
  whose code is in the module \<^verbatim>\<open>database\<close>, which is not among the sources.  Section 4.1:
  the payload is inserted verbatim into the named collection.  Section 3: the identifier
  is assigned by the store and unique; here the store hands out the next unused number.
\<close>

definition insert_one :: "string \<Rightarrow> doc \<Rightarrow> store \<Rightarrow> store" where
  "insert_one collection_name data s =
     s\<lparr>colls := (colls s)(collection_name :=
            colls s collection_name @ [\<lparr>doc_id = next_oid s, doc_fields = data\<rparr>]),
       next_oid := Suc (next_oid s)\<rparr>"

text \<open>
  Modelled from the spec: \<^verbatim>\<open>create_document\<close> of the module \<^verbatim>\<open>database\<close>, which is not among
  the sources.  Section 4.1: it inserts the payload and returns the newly assigned
  identifier as a string; it fails with \<^verbatim>\<open>StorageUnavailable\<close> when there is no store
  connection.
\<close>

definition create_document :: "string \<Rightarrow> doc \<Rightarrow> store option \<Rightarrow> (exn + string) \<times> store option" where
  "create_document collection_name data db =
     (case db of
        None \<Rightarrow> (Inl StorageUnavailable, None)
      | Some s \<Rightarrow> (Inr (oid_str (next_oid s)), Some (insert_one collection_name data s)))"

text \<open>
  Modelled from the spec: \<^verbatim>\<open>get_documents\<close> of the module \<^verbatim>\<open>database\<close>, which is not among
  the sources.  Section 4.1: it returns all documents of the collection and converts the
  internal identifier into a string field \<^verbatim>\<open>id\<close> of each returned record; it returns an
  empty sequence when the store is unavailable.
\<close>

definition get_documents :: "string \<Rightarrow> store option \<Rightarrow> doc list" where
  "get_documents collection_name db =
     (case db of
        None \<Rightarrow> []
      | Some s \<Rightarrow>
          map (\<lambda>d. AList.update ''id'' (PStr (oid_str (doc_id d))) (doc_fields d))
            (colls s collection_name))"

section \<open>Responses\<close>

text \<open>
  A handler returns a JSON value, or raises \<^verbatim>\<open>HTTPException\<close> with a status code and a
  detail.  The framework answers a body that fails validation with status 422 and the
  list of offending fields, and an exception that escapes a handler with status 500.
\<close>

datatype detail = Text string | Str_of exn

datatype response =
    Json pyval
  | RequestValidationError "verr list"
  | HTTPException nat detail
  | InternalServerError exn

fun status_code :: "response \<Rightarrow> nat" where
  "status_code (Json v) = 200"
| "status_code (RequestValidationError es) = 422"
| "status_code (HTTPException c d) = c"
| "status_code (InternalServerError e) = 500"

text \<open>The framework's part of a POST endpoint: validate the body, then call the handler.\<close>

definition post :: "lax \<Rightarrow> model_class \<Rightarrow>
    (doc \<Rightarrow> store option \<Rightarrow> response \<times> store option) \<Rightarrow>
    doc \<Rightarrow> store option \<Rightarrow> response \<times> store option" where
  "post lib cls handler body db =
     (case validate lib cls body of
        Inl errs \<Rightarrow> (RequestValidationError errs, db)
      | Inr m \<Rightarrow> handler m db)"

text \<open>\<^verbatim>\<open>return {"id": inserted_id}\<close>, or the exception of \<^verbatim>\<open>create_document\<close> escaping.\<close>

fun return_id :: "(exn + string) \<times> store option \<Rightarrow> response \<times> store option" where
  "return_id (Inl e, db) = (InternalServerError e, db)"
| "return_id (Inr inserted_id, db) = (Json (PDict [(''id'', PStr inserted_id)]), db)"

section \<open>Create handlers (main.py, lines 266-378)\<close>

definition create_job :: "doc \<Rightarrow> store option \<Rightarrow> response \<times> store option" where
  "create_job job db = return_id (create_document ''job'' (model_dump job) db)"

definition create_candidate :: "doc \<Rightarrow> store option \<Rightarrow> response \<times> store option" where
  "create_candidate candidate db =
     return_id (create_document ''candidate'' (model_dump candidate) db)"

definition create_interview :: "doc \<Rightarrow> store option \<Rightarrow> response \<times> store option" where
  "create_interview interview db =
     return_id (create_document ''interview'' (model_dump interview) db)"

text \<open>
  \<^verbatim>\<open>{**feedback.model_dump(), "interview_id": interview_id}\<close>: the key is already in the
  dump, so its value is replaced in place.
\<close>

definition create_feedback :: "string \<Rightarrow> doc \<Rightarrow> store option \<Rightarrow> response \<times> store option" where
  "create_feedback interview_id feedback db =
     return_id (create_document ''feedback''
       (AList.update ''interview_id'' (PStr interview_id) (model_dump feedback)) db)"

definition create_offer :: "doc \<Rightarrow> store option \<Rightarrow> response \<times> store option" where
  "create_offer offer db = return_id (create_document ''offer'' (model_dump offer) db)"

definition create_onboarding :: "doc \<Rightarrow> store option \<Rightarrow> response \<times> store option" where
  "create_onboarding task db =
     return_id (create_document ''onboardingtask'' (model_dump task) db)"

definition create_message :: "doc \<Rightarrow> store option \<Rightarrow> response \<times> store option" where
  "create_message msg db = return_id (create_document ''message'' (model_dump msg) db)"

section \<open>Queries and updates of the store driver\<close>

text \<open>
  The handlers of main.py call the driver directly: \<^verbatim>\<open>count_documents\<close>, \<^verbatim>\<open>find_one\<close> and
  \<^verbatim>\<open>update_one\<close>.  A filter is a conjunction of clauses: the identifier equals an object
  id, or a field satisfies a condition (equality, \<^verbatim>\<open>$in\<close>, \<^verbatim>\<open>$nin\<close>).  A condition value
  matches a field that holds it, an array field with an element that is it, and, when
  it is null, a field that is absent.
\<close>

datatype cond = Eq pyval | In "pyval list" | Nin "pyval list"

datatype clause = ById nat | Field string cond

type_synonym query = "clause list"

fun matches_value :: "pyval option \<Rightarrow> pyval \<Rightarrow> bool" where
  "matches_value None v = (v = PNone)"
| "matches_value (Some (PList xs)) v = (PList xs = v \<or> List.member xs v)"
| "matches_value (Some w) v = (w = v)"

fun holds :: "cond \<Rightarrow> pyval option \<Rightarrow> bool" where
  "holds (Eq v) fv = matches_value fv v"
| "holds (In vs) fv = list_ex (matches_value fv) vs"
| "holds (Nin vs) fv = (\<not> list_ex (matches_value fv) vs)"

fun clause_holds :: "document \<Rightarrow> clause \<Rightarrow> bool" where
  "clause_holds d (ById i) = (doc_id d = i)"
| "clause_holds d (Field k c) = holds c (map_of (doc_fields d) k)"

definition matches :: "query \<Rightarrow> document \<Rightarrow> bool" where
  "matches q d = list_all (clause_holds d) q"

definition count_documents :: "string \<Rightarrow> query \<Rightarrow> store \<Rightarrow> nat" where
  "count_documents c q s = length (filter (matches q) (colls s c))"

definition find_one :: "string \<Rightarrow> query \<Rightarrow> store \<Rightarrow> document option" where
  "find_one c q s = List.find (matches q) (colls s c)"

text \<open>\<^verbatim>\<open>{"$set": {...}}\<close>: each key is overwritten in place, or appended when absent.\<close>

fun set_fields :: "doc \<Rightarrow> doc \<Rightarrow> doc" where
  "set_fields [] d = d"
| "set_fields ((k, v) # kvs) d = set_fields kvs (AList.update k v d)"

fun update_first :: "(document \<Rightarrow> bool) \<Rightarrow> (document \<Rightarrow> document) \<Rightarrow>
    document list \<Rightarrow> document list" where
  "update_first p f [] = []"
| "update_first p f (d # ds) = (if p d then f d # ds else d # update_first p f ds)"

text \<open>\<^verbatim>\<open>update_one\<close> changes the first document that matches, and nothing when none does.\<close>

definition update_one :: "string \<Rightarrow> query \<Rightarrow> doc \<Rightarrow> store \<Rightarrow> store" where
  "update_one c q upd s =
     s\<lparr>colls := (colls s)(c :=
          update_first (matches q) (\<lambda>d. d\<lparr>doc_fields := set_fields upd (doc_fields d)\<rparr>)
            (colls s c))\<rparr>"

section \<open>Seeding (main.py, lines 131-211)\<close>

text \<open>
  \<^verbatim>\<open>datetime.utcnow()\<close> is read three times; the readings are the parameters \<open>t1\<close>, \<open>t2\<close>
  and \<open>t3\<close>.  \<^verbatim>\<open>timedelta(days=3)\<close> and \<^verbatim>\<open>timedelta(hours=4)\<close> are in microseconds.
\<close>

definition sample_jobs :: "int \<Rightarrow> int \<Rightarrow> doc list" where
  "sample_jobs t1 t2 =
    [[(''title'', PStr ''Senior Frontend Engineer''),
      (''department'', PStr ''Engineering''),
      (''location'', PStr ''Remote''),
      (''status'', PStr ''open''),
      (''owner'', PStr ''Alex Johnson''),
      (''description'', PStr ''Own the web UI and design systems.''),
      (''date_posted'', PDatetime t1)],
     [(''title'', PStr ''Product Manager''),
      (''department'', PStr ''Product''),
      (''location'', PStr ''NYC''),
      (''status'', PStr ''open''),
      (''owner'', PStr ''Priya Sharma''),
      (''description'', PStr ''Drive roadmap and outcomes.''),
      (''date_posted'', PDatetime (t2 - 3 * 86400000000))]]"

definition sample_candidates :: "doc list" where
  "sample_candidates =
    [[(''name'', PStr ''Jordan Lee''),
      (''email'', PStr ''jordan@example.com''),
      (''current_role'', PStr ''Frontend Engineer''),
      (''stage'', PStr ''interview''),
      (''skills'', PList [PStr ''React'', PStr ''TypeScript'', PStr ''Tailwind'']),
      (''assessment_scores'',
         PDict [(''technical'', PInt 85), (''culture'', PInt 78), (''communication'', PInt 88)]),
      (''avatar_url'', PStr ''https://i.pravatar.cc/120?img=5'')],
     [(''name'', PStr ''Samira Khan''),
      (''email'', PStr ''samira@example.com''),
      (''current_role'', PStr ''Product Manager''),
      (''stage'', PStr ''applied''),
      (''skills'', PList [PStr ''Roadmapping'', PStr ''Analytics'', PStr ''User Research'']),
      (''assessment_scores'',
         PDict [(''technical'', PInt 70), (''culture'', PInt 90), (''communication'', PInt 92)]),
      (''avatar_url'', PStr ''https://i.pravatar.cc/120?img=32'')],
     [(''name'', PStr ''Diego Martinez''),
      (''email'', PStr ''diego@example.com''),
      (''current_role'', PStr ''Backend Engineer''),
      (''stage'', PStr ''offer''),
      (''skills'', PList [PStr ''Python'', PStr ''FastAPI'', PStr ''MongoDB'']),
      (''assessment_scores'',
         PDict [(''technical'', PInt 91), (''culture'', PInt 84), (''communication'', PInt 80)]),
      (''avatar_url'', PStr ''https://i.pravatar.cc/120?img=15'')]]"

text \<open>\<^verbatim>\<open>cand.get(key)\<close>: the value, or \<^verbatim>\<open>None\<close> when the key is absent.\<close>

definition dict_get :: "doc \<Rightarrow> string \<Rightarrow> pyval" where
  "dict_get d k = (case map_of d k of None \<Rightarrow> PNone | Some v \<Rightarrow> v)"

definition sample_interview :: "document \<Rightarrow> int \<Rightarrow> doc" where
  "sample_interview cand t3 =
     [(''candidate_id'', PStr (oid_str (doc_id cand))),
      (''candidate_name'', dict_get (doc_fields cand) ''name''),
      (''interviewer'', PStr ''Alex Johnson''),
      (''time'', PDatetime (t3 + 4 * 3600000000)),
      (''status'', PStr ''scheduled''),
      (''meeting_url'', PStr ''https://meet.example.com/abc'')]"

text \<open>
  A statement \<^verbatim>\<open>create_document(...)\<close> whose result is dropped, and the loop
  \<^verbatim>\<open>for x in xs: create_document(name, x)\<close>; an exception ends the loop.
\<close>

definition create_stmt :: "string \<Rightarrow> doc \<Rightarrow> store option \<Rightarrow> exn option \<times> store option" where
  "create_stmt c d db =
     (case create_document c d db of
        (Inl e, db') \<Rightarrow> (Some e, db')
      | (Inr inserted_id, db') \<Rightarrow> (None, db'))"

fun create_each :: "string \<Rightarrow> doc list \<Rightarrow> store option \<Rightarrow> exn option \<times> store option" where
  "create_each c [] db = (None, db)"
| "create_each c (d # ds) db =
     (case create_stmt c d db of
        (Some e, db') \<Rightarrow> (Some e, db')
      | (None, db') \<Rightarrow> create_each c ds db')"

text \<open>
  The three blocks of the handler.  Each subscripts \<^verbatim>\<open>db\<close>, which raises \<^verbatim>\<open>TypeError\<close> on
  \<^verbatim>\<open>None\<close>; the handler has returned before when \<^verbatim>\<open>db\<close> is \<^verbatim>\<open>None\<close>.
\<close>

definition seed_jobs :: "int \<Rightarrow> int \<Rightarrow> store option \<Rightarrow> exn option \<times> store option" where
  "seed_jobs t1 t2 db =
     (case db of
        None \<Rightarrow> (Some TypeError, db)
      | Some s \<Rightarrow>
          (if count_documents ''job'' [] s = 0
           then create_each ''job'' (sample_jobs t1 t2) db
           else (None, db)))"

definition seed_candidates :: "store option \<Rightarrow> exn option \<times> store option" where
  "seed_candidates db =
     (case db of
        None \<Rightarrow> (Some TypeError, db)
      | Some s \<Rightarrow>
          (if count_documents ''candidate'' [] s = 0
           then create_each ''candidate'' sample_candidates db
           else (None, db)))"

definition seed_interviews :: "int \<Rightarrow> store option \<Rightarrow> exn option \<times> store option" where
  "seed_interviews t3 db =
     (case db of
        None \<Rightarrow> (Some TypeError, db)
      | Some s \<Rightarrow>
          (if count_documents ''interview'' [] s = 0
           then (case find_one ''candidate'' [Field ''stage'' (Eq (PStr ''interview''))] s of
                   None \<Rightarrow> (None, db)
                 | Some cand \<Rightarrow> create_stmt ''interview'' (sample_interview cand t3) db)
           else (None, db)))"

definition status_ok :: pyval where
  "status_ok = PDict [(''status'', PStr ''ok'')]"

definition seed_demo_data :: "int \<Rightarrow> int \<Rightarrow> int \<Rightarrow> store option \<Rightarrow> response \<times> store option" where
  "seed_demo_data t1 t2 t3 db =
     (case db of
        None \<Rightarrow> (HTTPException 500 (Text ''Database not available''), db)
      | Some s \<Rightarrow>
          (case seed_jobs t1 t2 db of
             (Some e, db1) \<Rightarrow> (InternalServerError e, db1)
           | (None, db1) \<Rightarrow>
               (case seed_candidates db1 of
                  (Some e, db2) \<Rightarrow> (InternalServerError e, db2)
                | (None, db2) \<Rightarrow>
                    (case seed_interviews t3 db2 of
                       (Some e, db3) \<Rightarrow> (InternalServerError e, db3)
                     | (None, db3) \<Rightarrow> (Json status_ok, db3)))))"

section \<open>Metrics (main.py, lines 215-232)\<close>

text \<open>The inner function \<^verbatim>\<open>count(col, filt)\<close>: zero when \<^verbatim>\<open>db\<close> is \<^verbatim>\<open>None\<close>.\<close>

definition count :: "store option \<Rightarrow> string \<Rightarrow> query \<Rightarrow> nat" where
  "count db col filt = (case db of None \<Rightarrow> 0 | Some s \<Rightarrow> count_documents col filt s)"

definition get_metrics :: "store option \<Rightarrow> pyval" where
  "get_metrics db =
     (let total_jobs = count db ''job'' [];
          active_candidates =
            count db ''candidate'' [Field ''stage'' (Nin [PStr ''rejected'', PStr ''hired''])];
          offers_sent =
            count db ''offer''
              [Field ''status'' (In [PStr ''sent'', PStr ''accepted'', PStr ''declined''])];
          time_to_fill = 24
      in PDict [(''total_jobs'', PInt (int total_jobs)),
                (''active_candidates'', PInt (int active_candidates)),
                (''offers_sent'', PInt (int offers_sent)),
                (''time_to_fill'', PInt time_to_fill)])"

section \<open>List handlers (main.py, lines 260-372)\<close>

text \<open>
  \<^verbatim>\<open>get_documents(name) if db else []\<close> asks for the truth value of the handle.  \<^verbatim>\<open>None\<close>
  is false.  A connected handle is the driver's database object, which defines no truth
  value: \<^verbatim>\<open>bool(db)\<close> raises \<^verbatim>\<open>NotImplementedError\<close> and asks to compare with \<^verbatim>\<open>None\<close>
  instead, as the handlers for the metrics, the seeding and the state transitions do.
  The exception escapes the handler.
\<close>

definition truth :: "store option \<Rightarrow> exn + bool" where
  "truth db = (case db of None \<Rightarrow> Inr False | Some s \<Rightarrow> Inl NotImplementedError)"

definition list_jobs :: "store option \<Rightarrow> response" where
  "list_jobs db =
     (case truth db of
        Inl e \<Rightarrow> InternalServerError e
      | Inr b \<Rightarrow> Json (PList (map PDict (if b then get_documents ''job'' db else []))))"

definition list_candidates :: "store option \<Rightarrow> response" where
  "list_candidates db =
     (case truth db of
        Inl e \<Rightarrow> InternalServerError e
      | Inr b \<Rightarrow> Json (PList (map PDict (if b then get_documents ''candidate'' db else []))))"

definition list_interviews :: "store option \<Rightarrow> response" where
  "list_interviews db =
     (case truth db of
        Inl e \<Rightarrow> InternalServerError e
      | Inr b \<Rightarrow> Json (PList (map PDict (if b then get_documents ''interview'' db else []))))"

definition list_offers :: "store option \<Rightarrow> response" where
  "list_offers db =
     (case truth db of
        Inl e \<Rightarrow> InternalServerError e
      | Inr b \<Rightarrow> Json (PList (map PDict (if b then get_documents ''offer'' db else []))))"

definition list_onboarding :: "store option \<Rightarrow> response" where
  "list_onboarding db =
     (case truth db of
        Inl e \<Rightarrow> InternalServerError e
      | Inr b \<Rightarrow> Json (PList (map PDict (if b then get_documents ''onboardingtask'' db else []))))"

definition list_messages :: "store option \<Rightarrow> response" where
  "list_messages db =
     (case truth db of
        Inl e \<Rightarrow> InternalServerError e
      | Inr b \<Rightarrow> Json (PList (map PDict (if b then get_documents ''message'' db else []))))"

section \<open>State transitions (main.py, lines 289-301 and 340-352)\<close>

text \<open>
  Inside the \<^verbatim>\<open>try\<close> block, in evaluation order: \<^verbatim>\<open>ObjectId(candidate_id)\<close>, the attribute
  of the payload, \<^verbatim>\<open>datetime.utcnow()\<close> (the parameter \<open>now\<close>) and the call of
  \<^verbatim>\<open>update_one\<close>.  The call can raise an error of the store (the connection is lost, the
  server refuses the write); \<open>fault\<close> is the message of that error, when there is one,
  and the write has then not happened.  Every exception of the block is caught and
  raised again as \<^verbatim>\<open>HTTPException(status_code=400, detail=str(e))\<close>.
\<close>

definition update_candidate_stage ::
    "string \<Rightarrow> doc \<Rightarrow> int \<Rightarrow> string option \<Rightarrow> store option \<Rightarrow> response \<times> store option" where
  "update_candidate_stage candidate_id payload now fault db =
     (case db of
        None \<Rightarrow> (HTTPException 500 (Text ''Database not available''), db)
      | Some s \<Rightarrow>
          (case ObjectId candidate_id of
             None \<Rightarrow> (HTTPException 400 (Str_of (InvalidId candidate_id)), db)
           | Some i \<Rightarrow>
               (case getattr payload ''stage'' of
                  None \<Rightarrow> (HTTPException 400 (Str_of (AttributeError ''stage'')), db)
                | Some stage \<Rightarrow>
                    (case fault of
                       Some e \<Rightarrow> (HTTPException 400 (Str_of (StoreError e)), db)
                     | None \<Rightarrow>
                         (Json status_ok,
                          Some (update_one ''candidate'' [ById i]
                                  [(''stage'', stage), (''updated_at'', PDatetime now)] s))))))"

definition update_offer_status ::
    "string \<Rightarrow> doc \<Rightarrow> int \<Rightarrow> string option \<Rightarrow> store option \<Rightarrow> response \<times> store option" where
  "update_offer_status offer_id payload now fault db =
     (case db of
        None \<Rightarrow> (HTTPException 500 (Text ''Database not available''), db)
      | Some s \<Rightarrow>
          (case ObjectId offer_id of
             None \<Rightarrow> (HTTPException 400 (Str_of (InvalidId offer_id)), db)
           | Some i \<Rightarrow>
               (case getattr payload ''status'' of
                  None \<Rightarrow> (HTTPException 400 (Str_of (AttributeError ''status'')), db)
                | Some status \<Rightarrow>
                    (case fault of
                       Some e \<Rightarrow> (HTTPException 400 (Str_of (StoreError e)), db)
                     | None \<Rightarrow>
                         (Json status_ok,
                          Some (update_one ''offer'' [ById i]
                                  [(''status'', status), (''updated_at'', PDatetime now)] s))))))"

section \<open>The routes\<close>

text \<open>
  The POST routes that create a document, with the request model and the handler that
  the decorators of main.py bind to each; the feedback route carries its path parameter.
\<close>

datatype route = Jobs | Candidates | Interviews | Feedback string | Offers | Onboarding | Messages

fun route_class :: "route \<Rightarrow> model_class" where
  "route_class Jobs = JobIn"
| "route_class Candidates = CandidateIn"
| "route_class Interviews = InterviewIn"
| "route_class (Feedback interview_id) = FeedbackIn"
| "route_class Offers = OfferIn"
| "route_class Onboarding = OnboardingTaskIn"
| "route_class Messages = MessageIn"

fun route_handler :: "route \<Rightarrow> doc \<Rightarrow> store option \<Rightarrow> response \<times> store option" where
  "route_handler Jobs = create_job"
| "route_handler Candidates = create_candidate"
| "route_handler Interviews = create_interview"
| "route_handler (Feedback interview_id) = create_feedback interview_id"
| "route_handler Offers = create_offer"
| "route_handler Onboarding = create_onboarding"
| "route_handler Messages = create_message"

text \<open>What each handler hands to \<^verbatim>\<open>create_document\<close>: the collection name and the payload.\<close>

fun route_collection :: "route \<Rightarrow> string" where
  "route_collection Jobs = ''job''"
| "route_collection Candidates = ''candidate''"
| "route_collection Interviews = ''interview''"
| "route_collection (Feedback interview_id) = ''feedback''"
| "route_collection Offers = ''offer''"
| "route_collection Onboarding = ''onboardingtask''"
| "route_collection Messages = ''message''"

fun route_payload :: "route \<Rightarrow> doc \<Rightarrow> doc" where
  "route_payload (Feedback interview_id) m = AList.update ''interview_id'' (PStr interview_id) m"
| "route_payload r m = m"

definition post_create ::
    "lax \<Rightarrow> route \<Rightarrow> doc \<Rightarrow> store option \<Rightarrow> response \<times> store option" where
  "post_create lib r body db = post lib (route_class r) (route_handler r) body db"

text \<open>The GET route of the same path; the feedback route has none.\<close>

fun route_list :: "route \<Rightarrow> (store option \<Rightarrow> response) option" where
  "route_list Jobs = Some list_jobs"
| "route_list Candidates = Some list_candidates"
| "route_list Interviews = Some list_interviews"
| "route_list (Feedback interview_id) = None"
| "route_list Offers = Some list_offers"
| "route_list Onboarding = Some list_onboarding"
| "route_list Messages = Some list_messages"

definition post_candidate_stage ::
    "lax \<Rightarrow> string \<Rightarrow> doc \<Rightarrow> int \<Rightarrow> string option \<Rightarrow> store option \<Rightarrow>
     response \<times> store option" where
  "post_candidate_stage lib candidate_id body now fault db =
     post lib StageUpdate (\<lambda>payload. update_candidate_stage candidate_id payload now fault)
       body db"

definition post_offer_status ::
    "lax \<Rightarrow> string \<Rightarrow> doc \<Rightarrow> int \<Rightarrow> string option \<Rightarrow> store option \<Rightarrow>
     response \<times> store option" where
  "post_offer_status lib offer_id body now fault db =
     post lib OfferStatus (\<lambda>payload. update_offer_status offer_id payload now fault) body db"

section \<open>The collection schemas (schemas.py)\<close>

text \<open>
  The \<^verbatim>\<open>Literal\<close> annotations of schemas.py, per route: the field and its listed values.
  main.py does not import schemas.py.
\<close>

fun enum_fields :: "route \<Rightarrow> (string \<times> string list) list" where
  "enum_fields Jobs = [(''status'', [''draft'', ''open'', ''paused'', ''closed''])]"
| "enum_fields Candidates =
     [(''stage'', [''applied'', ''screening'', ''interview'', ''offer'', ''hired'', ''rejected''])]"
| "enum_fields Interviews = [(''status'', [''scheduled'', ''completed'', ''cancelled''])]"
| "enum_fields (Feedback interview_id) = [(''recommendation'', [''proceed'', ''reject'', ''hold''])]"
| "enum_fields Offers =
     [(''status'', [''draft'', ''routing'', ''approved'', ''sent'', ''accepted'', ''declined''])]"
| "enum_fields Onboarding =
     [(''assignee'', [''HR'', ''IT'', ''Admin'']),
      (''status'', [''pending'', ''in_progress'', ''done''])]"
| "enum_fields Messages = []"

text \<open>
  \<^verbatim>\<open>EmailStr\<close> (schemas.py, line 25) is checked by a library; every address it accepts has
  a non-empty part before an \<^verbatim>\<open>@\<close> and a non-empty part after it.
\<close>

definition email_shape :: "string \<Rightarrow> bool" where
  "email_shape s =
     (takeWhile (\<lambda>c. c \<noteq> CHR ''@'') s \<noteq> [] \<and>
      1 < length (dropWhile (\<lambda>c. c \<noteq> CHR ''@'') s))"

section \<open>Well-formed stores\<close>

text \<open>
  What the store guarantees of its identifiers: within a collection no two documents
  share one, and every identifier in use is below the next one to be handed out.
\<close>

definition wf_store :: "store \<Rightarrow> bool" where
  "wf_store s =
     ((\<forall>c. \<forall>d \<in> set (colls s c). doc_id d < next_oid s) \<and>
      (\<forall>c. distinct (map doc_id (colls s c))))"

section \<open>Frame conditions of an update\<close>

text \<open>
  What an update of one document may change: the identifier stays, and so does every
  field outside the listed keys; in the store, only the named collection differs, and
  there at most one document, the one with the given identifier.
\<close>

definition only_fields_changed :: "string list \<Rightarrow> document \<Rightarrow> document \<Rightarrow> bool" where
  "only_fields_changed ks d d' =
     (doc_id d' = doc_id d \<and>
      (\<forall>k. k \<notin> set ks \<longrightarrow> map_of (doc_fields d') k = map_of (doc_fields d) k))"

definition single_update :: "string \<Rightarrow> nat \<Rightarrow> string list \<Rightarrow> store \<Rightarrow> store \<Rightarrow> bool" where
  "single_update c i ks s s' =
     (next_oid s' = next_oid s \<and>
      (\<forall>c'. c' \<noteq> c \<longrightarrow> colls s' c' = colls s c') \<and>
      (colls s' c = colls s c \<or>
       (\<exists>pre d d' post.
          colls s c = pre @ d # post \<and> colls s' c = pre @ d' # post \<and>
          doc_id d = i \<and> only_fields_changed ks d d')))"

section \<open>Validation: what an accepted body yields\<close>


lemma validate_Inr_iff: "validate lib cls body = Inr m \<longleftrightarrow> map (validate_field lib body) cls = map Inr m"
proof (induction cls arbitrary: m)
  case Nil
  then show ?case by auto
next
  case (Cons f fs)
  show ?case
  proof (cases "validate_field lib body f")
    case (Inl e)
    then show ?thesis by (cases m) (auto split: sum.splits)
  next
    case (Inr kv)
    note kv = this
    show ?thesis
    proof (cases "validate lib fs body")
      case (Inl es)
      with kv Cons.IH show ?thesis by (cases m) (auto split: sum.splits)
    next
      case (Inr m')
      with kv Cons.IH show ?thesis by (cases m) (auto split: sum.splits)
    qed
  qed
qed

lemma validate_isl_iff: "isl (validate lib cls body) \<longleftrightarrow> list_ex (\<lambda>f. isl (validate_field lib body f)) cls"
  by (induction cls) (auto split: sum.splits)

lemma validate_field_name: "validate_field lib body f = Inr kv \<Longrightarrow> fst kv = fst f"
  by (cases f) (auto split: option.splits fdefault.splits if_splits)

lemma validate_names: "validate lib cls body = Inr m \<Longrightarrow> map fst m = map fst cls"
proof (induction cls arbitrary: m)
  case Nil then show ?case by simp
next
  case (Cons f fs)
  then show ?case
    by (auto split: sum.splits dest: validate_field_name)
qed

lemma validate_lookup:
  assumes "validate lib cls body = Inr m" and "distinct (map fst cls)" and "fld \<in> set cls"
  shows "\<exists>w. validate_field lib body fld = Inr (fst fld, w) \<and> map_of m (fst fld) = Some w"
  using assms
proof (induction cls arbitrary: m)
  case Nil then show ?case by simp
next
  case (Cons f fs)
  from Cons.prems(1) obtain kv m' where m: "m = kv # m'"
    and kv: "validate_field lib body f = Inr kv" and m': "validate lib fs body = Inr m'"
    by (auto split: sum.splits)
  from validate_field_name[OF kv] obtain w where w: "kv = (fst f, w)"
    by (cases kv) auto
  show ?case
  proof (cases "fld = f")
    case True
    with kv w m show ?thesis by simp
  next
    case False
    with Cons.prems(3) have mem: "fld \<in> set fs" by simp
    then have img: "fst fld \<in> fst ` set fs" by (rule imageI)
    from Cons.prems(2) have notin: "fst f \<notin> fst ` set fs" by simp
    have ne: "fst fld \<noteq> fst f"
    proof
      assume "fst fld = fst f"
      with img have "fst f \<in> fst ` set fs" by simp
      with notin show False by contradiction
    qed
    from Cons.IH[OF m' _ mem] Cons.prems(2)
    obtain w' where "validate_field lib body fld = Inr (fst fld, w')"
      and "map_of m' (fst fld) = Some w'"
      by auto
    with ne m w show ?thesis by simp
  qed
qed

lemma validate_read:
  assumes "validate lib cls body = Inr m" and "distinct (map fst cls)"
    and "(k, ty, d) \<in> set cls" and "map_of body k = Some v"
  shows "coerce lib ty v = map_of m k \<and> map_of m k \<noteq> None"
proof -
  from validate_lookup[OF assms(1-3)] obtain w
    where f: "validate_field lib body (k, ty, d) = Inr (k, w)" and l: "map_of m k = Some w"
    by auto
  from f assms(4) have "coerce lib ty v = Some w"
    by (auto split: option.splits)
  with l show ?thesis by simp
qed

lemma validate_default:
  assumes "validate lib cls body = Inr m" and "distinct (map fst cls)"
    and "(k, ty, d) \<in> set cls" and "map_of body k = None"
  shows "\<exists>w. d = Default w \<and> map_of m k = Some w"
proof -
  from validate_lookup[OF assms(1-3)] obtain w
    where f: "validate_field lib body (k, ty, d) = Inr (k, w)" and l: "map_of m k = Some w"
    by auto
  from f assms(4) have "d = Default w"
    by (auto split: fdefault.splits)
  with l show ?thesis by simp
qed

lemma coerce_same:
  "coerce lib ty v = Some w \<Longrightarrow> ty \<noteq> DictStrInt \<Longrightarrow> ty \<noteq> Datetime \<Longrightarrow> w = v"
  by (cases ty) (auto split: if_splits pyval.splits)

lemma validate_submitted:
  assumes "validate lib cls body = Inr m" and "distinct (map fst cls)"
    and "(k, ty, d) \<in> set cls" and "ty \<noteq> DictStrInt" and "ty \<noteq> Datetime"
    and "map_of body k = Some v"
  shows "map_of m k = Some v"
proof -
  from validate_read[OF assms(1-3) assms(6)] obtain w
    where c: "coerce lib ty v = Some w" and l: "map_of m k = Some w"
    by (cases "map_of m k") auto
  from coerce_same[OF c assms(4,5)] l show ?thesis by simp
qed

lemma as_int_dict_read:
  "as_int_dict lib kvs = Some r \<Longrightarrow>
   list_all2 (\<lambda>kv kw. fst kw = fst kv \<and> (\<exists>n. as_int lib (snd kv) = Some n \<and> snd kw = PInt n))
     kvs r"
proof (induction kvs arbitrary: r)
  case Nil
  then show ?case by simp
next
  case (Cons kv kvs)
  obtain k v where kv: "kv = (k, v)" by (cases kv)
  from Cons.prems kv obtain n rest where n: "as_int lib v = Some n"
    and rest: "as_int_dict lib kvs = Some rest" and r: "r = (k, PInt n) # rest"
    by (auto split: option.splits)
  from Cons.IH[OF rest] n r kv show ?case by simp
qed

lemma coerce_int_dict:
  "coerce lib DictStrInt v = Some w \<Longrightarrow>
   \<exists>kvs r. v = PDict kvs \<and> w = PDict r \<and>
     list_all2 (\<lambda>kv kw. fst kw = fst kv \<and> (\<exists>n. as_int lib (snd kv) = Some n \<and> snd kw = PInt n))
       kvs r"
  by (cases v) (auto dest: as_int_dict_read)

lemma route_handler_eq:
  "route_handler r m db = return_id (create_document (route_collection r) (route_payload r m) db)"
  by (cases r) (simp_all add: create_job_def create_candidate_def create_interview_def
      create_feedback_def create_offer_def create_onboarding_def create_message_def model_dump_def)

lemma post_create_rejected:
  "validate lib (route_class r) body = Inl errs \<Longrightarrow> post_create lib r body db = (RequestValidationError errs, db)"
  by (simp add: post_create_def post_def)

lemma post_create_accepted:
  "validate lib (route_class r) body = Inr m \<Longrightarrow>
   post_create lib r body (Some s) =
     (Json (PDict [(''id'', PStr (oid_str (next_oid s)))]),
      Some (insert_one (route_collection r) (route_payload r m) s))"
  by (simp add: post_create_def post_def route_handler_eq create_document_def)

lemma post_create_unavailable:
  "validate lib (route_class r) body = Inr m \<Longrightarrow>
   post_create lib r body None = (InternalServerError StorageUnavailable, None)"
  by (simp add: post_create_def post_def route_handler_eq create_document_def)


lemma colls_insert_one:
  "colls (insert_one c d s) c' =
     (if c' = c then colls s c @ [\<lparr>doc_id = next_oid s, doc_fields = d\<rparr>] else colls s c')"
  by (simp add: insert_one_def)

lemma next_oid_insert_one: "next_oid (insert_one c d s) = Suc (next_oid s)"
  by (simp add: insert_one_def)

lemma oid_str_0: "oid_str 0 = ''000000000000000000000000''"
  by code_simp

lemma post_create_call:
  "validate lib (route_class r) body = Inr m \<Longrightarrow>
   post_create lib r body db =
     return_id (create_document (route_collection r) (route_payload r m) db)"
  by (simp add: post_create_def post_def route_handler_eq)

text \<open>
  Claim C10, as amended.  A request to POST /api/interviews/{interview_id}/feedback whose
  body passes validation makes one call of \<^verbatim>\<open>create_document\<close>, for the collection
  feedback, and the document then stored has the five keys of the request model and no
  other.  Its \<^verbatim>\<open>interview_id\<close> is the path parameter, whatever the body carried under that
  key.  The candidate id, the recommendation and the comments are stored as submitted,
  and comments that the body leaves out are stored as null.  The ratings are stored under
  the keys submitted, each with the integer that validation read from the value
  submitted.
\<close>

theorem feedback_interview_id_from_path:
  assumes "validate lib FeedbackIn body = Inr feedback"
  shows "post_create lib (Feedback interview_id) body db =
       return_id (create_document ''feedback''
         (AList.update ''interview_id'' (PStr interview_id) feedback) db) \<and>
     (\<exists>s' stored.
        post_create lib (Feedback interview_id) body (Some s) =
          (Json (PDict [(''id'', PStr (oid_str (next_oid s)))]), Some s') \<and>
        colls s' ''feedback'' =
          colls s ''feedback'' @ [\<lparr>doc_id = next_oid s, doc_fields = stored\<rparr>] \<and>
        map_of stored ''interview_id'' = Some (PStr interview_id) \<and>
        map fst stored =
          [''interview_id'', ''candidate_id'', ''ratings'', ''recommendation'', ''comments''] \<and>
        (\<forall>k v. k \<in> {''candidate_id'', ''recommendation'', ''comments''} \<longrightarrow>
           map_of body k = Some v \<longrightarrow> map_of stored k = Some v) \<and>
        (map_of body ''comments'' = None \<longrightarrow> map_of stored ''comments'' = Some PNone) \<and>
        (\<exists>kvs r. map_of body ''ratings'' = Some (PDict kvs) \<and>
           map_of stored ''ratings'' = Some (PDict r) \<and>
           list_all2 (\<lambda>kv kw. fst kw = fst kv \<and>
               (\<exists>n. as_int lib (snd kv) = Some n \<and> snd kw = PInt n)) kvs r))"
proof
  from assms have ok: "validate lib (route_class (Feedback interview_id)) body = Inr feedback"
    by simp
  from post_create_call[OF ok, of db]
  show "post_create lib (Feedback interview_id) body db =
       return_id (create_document ''feedback''
         (AList.update ''interview_id'' (PStr interview_id) feedback) db)"
    by simp
  let ?stored = "AList.update ''interview_id'' (PStr interview_id) feedback"
  let ?s' = "insert_one ''feedback'' ?stored s"
  have run: "post_create lib (Feedback interview_id) body (Some s) =
       (Json (PDict [(''id'', PStr (oid_str (next_oid s)))]), Some ?s')"
    using post_create_accepted[OF ok, of s] by simp
  have coll: "colls ?s' ''feedback'' =
      colls s ''feedback'' @ [\<lparr>doc_id = next_oid s, doc_fields = ?stored\<rparr>]"
    by (simp add: colls_insert_one)
  have own: "map_of ?stored ''interview_id'' = Some (PStr interview_id)"
    by (simp add: update_conv')
  have names: "map fst feedback =
      [''interview_id'', ''candidate_id'', ''ratings'', ''recommendation'', ''comments'']"
    using validate_names[OF assms] by (simp add: FeedbackIn_def)
  then have "''interview_id'' \<in> set (map fst feedback)"
    by simp
  then have "''interview_id'' \<in> fst ` set feedback"
    by simp
  then have keys: "map fst ?stored =
      [''interview_id'', ''candidate_id'', ''ratings'', ''recommendation'', ''comments'']"
    by (simp add: update_keys names)
  have dist: "distinct (map fst FeedbackIn)"
    by (simp add: FeedbackIn_def)
  have sub: "\<forall>k v. k \<in> {''candidate_id'', ''recommendation'', ''comments''} \<longrightarrow>
        map_of body k = Some v \<longrightarrow> map_of ?stored k = Some v"
  proof (intro allI impI)
    fix k v
    assume k: "k \<in> {''candidate_id'', ''recommendation'', ''comments''}"
      and v: "map_of body k = Some v"
    from k obtain ty d where mem: "(k, ty, d) \<in> set FeedbackIn"
      and ty: "ty \<noteq> DictStrInt" "ty \<noteq> Datetime" and ne: "k \<noteq> ''interview_id''"
      by (auto simp: FeedbackIn_def)
    from validate_submitted[OF assms dist mem ty v] have "map_of feedback k = Some v" .
    with ne show "map_of ?stored k = Some v" by (simp add: update_conv')
  qed
  have com: "map_of body ''comments'' = None \<longrightarrow> map_of ?stored ''comments'' = Some PNone"
  proof
    assume n: "map_of body ''comments'' = None"
    have mem: "(''comments'', OptionalStr, Default PNone) \<in> set FeedbackIn"
      by (simp add: FeedbackIn_def)
    from validate_default[OF assms dist mem n] have "map_of feedback ''comments'' = Some PNone"
      by simp
    then show "map_of ?stored ''comments'' = Some PNone" by (simp add: update_conv')
  qed
  have rat: "\<exists>kvs r. map_of body ''ratings'' = Some (PDict kvs) \<and>
           map_of ?stored ''ratings'' = Some (PDict r) \<and>
           list_all2 (\<lambda>kv kw. fst kw = fst kv \<and>
               (\<exists>n. as_int lib (snd kv) = Some n \<and> snd kw = PInt n)) kvs r"
  proof -
    have mem: "(''ratings'', DictStrInt, Required) \<in> set FeedbackIn"
      by (simp add: FeedbackIn_def)
    from validate_lookup[OF assms dist mem] obtain w
      where f: "validate_field lib body (''ratings'', DictStrInt, Required) = Inr (''ratings'', w)"
        and l: "map_of feedback ''ratings'' = Some w"
      by auto
    from f obtain v where v: "map_of body ''ratings'' = Some v"
      and c: "coerce lib DictStrInt v = Some w"
      by (auto split: option.splits)
    from coerce_int_dict[OF c] obtain kvs r where "v = PDict kvs" and "w = PDict r"
      and "list_all2 (\<lambda>kv kw. fst kw = fst kv \<and>
               (\<exists>n. as_int lib (snd kv) = Some n \<and> snd kw = PInt n)) kvs r"
      by blast
    moreover from l have "map_of ?stored ''ratings'' = Some w"
      by (simp add: update_conv')
    ultimately show ?thesis using v by blast
  qed
  show "\<exists>s' stored.
        post_create lib (Feedback interview_id) body (Some s) =
          (Json (PDict [(''id'', PStr (oid_str (next_oid s)))]), Some s') \<and>
        colls s' ''feedback'' =
          colls s ''feedback'' @ [\<lparr>doc_id = next_oid s, doc_fields = stored\<rparr>] \<and>
        map_of stored ''interview_id'' = Some (PStr interview_id) \<and>
        map fst stored =
          [''interview_id'', ''candidate_id'', ''ratings'', ''recommendation'', ''comments''] \<and>
        (\<forall>k v. k \<in> {''candidate_id'', ''recommendation'', ''comments''} \<longrightarrow>
           map_of body k = Some v \<longrightarrow> map_of stored k = Some v) \<and>
        (map_of body ''comments'' = None \<longrightarrow> map_of stored ''comments'' = Some PNone) \<and>
        (\<exists>kvs r. map_of body ''ratings'' = Some (PDict kvs) \<and>
           map_of stored ''ratings'' = Some (PDict r) \<and>
           list_all2 (\<lambda>kv kw. fst kw = fst kv \<and>
               (\<exists>n. as_int lib (snd kv) = Some n \<and> snd kw = PInt n)) kvs r)"
    apply (rule exI[of _ ?s'])
    apply (rule exI[of _ ?stored])
    using run coll own keys sub com rat apply (intro conjI)
          apply assumption+
    done
qed

text \<open>
  Claim C10, as stated, fails: a rating submitted as true is stored as the integer 1, and
  a body field that the request model does not declare is not stored.
\<close>

theorem feedback_body_fields_counterexample:
  "validate no_readings FeedbackIn
     [(''interview_id'', PStr ''from-body''), (''candidate_id'', PStr ''c1''),
      (''ratings'', PDict [(''technical'', PBool True)]), (''recommendation'', PStr ''proceed''),
      (''source'', PStr ''web'')] =
     Inr [(''interview_id'', PStr ''from-body''), (''candidate_id'', PStr ''c1''),
          (''ratings'', PDict [(''technical'', PInt 1)]), (''recommendation'', PStr ''proceed''),
          (''comments'', PNone)] \<and>
   fst (post_create no_readings (Feedback ''from-path'')
     [(''interview_id'', PStr ''from-body''), (''candidate_id'', PStr ''c1''),
      (''ratings'', PDict [(''technical'', PBool True)]), (''recommendation'', PStr ''proceed''),
      (''source'', PStr ''web'')] (Some empty_store)) =
     Json (PDict [(''id'', PStr ''000000000000000000000000'')]) \<and>
   map_option (\<lambda>s. colls s ''feedback'')
     (snd (post_create no_readings (Feedback ''from-path'')
       [(''interview_id'', PStr ''from-body''), (''candidate_id'', PStr ''c1''),
        (''ratings'', PDict [(''technical'', PBool True)]), (''recommendation'', PStr ''proceed''),
        (''source'', PStr ''web'')] (Some empty_store))) =
     Some [\<lparr>doc_id = 0, doc_fields =
       [(''interview_id'', PStr ''from-path''), (''candidate_id'', PStr ''c1''),
        (''ratings'', PDict [(''technical'', PInt 1)]), (''recommendation'', PStr ''proceed''),
        (''comments'', PNone)]\<rparr>]"
  by (simp add: post_create_def post_def FeedbackIn_def create_feedback_def model_dump_def
      create_document_def insert_one_def empty_store_def oid_str_0)

theorem feedback_interview_id_from_path_witness:
  "validate no_readings FeedbackIn
     [(''interview_id'', PStr ''from-body''), (''candidate_id'', PStr ''c1''),
      (''ratings'', PDict [(''technical'', PInt 4), (''culture'', PBool True)]),
      (''recommendation'', PStr ''proceed'')] =
   Inr [(''interview_id'', PStr ''from-body''), (''candidate_id'', PStr ''c1''),
        (''ratings'', PDict [(''technical'', PInt 4), (''culture'', PInt 1)]),
        (''recommendation'', PStr ''proceed''), (''comments'', PNone)] \<and>
   (\<exists>s' stored.
      post_create no_readings (Feedback ''from-path'')
        [(''interview_id'', PStr ''from-body''), (''candidate_id'', PStr ''c1''),
         (''ratings'', PDict [(''technical'', PInt 4), (''culture'', PBool True)]),
         (''recommendation'', PStr ''proceed'')]
        (Some empty_store) =
        (Json (PDict [(''id'', PStr ''000000000000000000000000'')]), Some s') \<and>
      colls s' ''feedback'' = [\<lparr>doc_id = 0, doc_fields = stored\<rparr>] \<and>
      map_of stored ''interview_id'' = Some (PStr ''from-path'') \<and>
      map_of stored ''candidate_id'' = Some (PStr ''c1'') \<and>
      map_of stored ''recommendation'' = Some (PStr ''proceed'') \<and>
      map_of stored ''comments'' = Some PNone)"
proof -
  let ?body = "[(''interview_id'', PStr ''from-body''), (''candidate_id'', PStr ''c1''),
      (''ratings'', PDict [(''technical'', PInt 4), (''culture'', PBool True)]),
      (''recommendation'', PStr ''proceed'')]"
  let ?m = "[(''interview_id'', PStr ''from-body''), (''candidate_id'', PStr ''c1''),
        (''ratings'', PDict [(''technical'', PInt 4), (''culture'', PInt 1)]),
        (''recommendation'', PStr ''proceed''), (''comments'', PNone)]"
  have h: "validate no_readings FeedbackIn ?body = Inr ?m"
    by (simp add: FeedbackIn_def)
  from feedback_interview_id_from_path[OF h, where interview_id = "''from-path''"
      and s = empty_store and db = None, THEN conjunct2]
  obtain s' stored where
    r: "post_create no_readings (Feedback ''from-path'') ?body (Some empty_store) =
          (Json (PDict [(''id'', PStr (oid_str (next_oid empty_store)))]), Some s')"
    and c: "colls s' ''feedback'' =
          colls empty_store ''feedback'' @ [\<lparr>doc_id = next_oid empty_store, doc_fields = stored\<rparr>]"
    and i: "map_of stored ''interview_id'' = Some (PStr ''from-path'')"
    and o: "\<forall>k v. k \<in> {''candidate_id'', ''recommendation'', ''comments''} \<longrightarrow>
        map_of ?body k = Some v \<longrightarrow> map_of stored k = Some v"
    and n: "map_of ?body ''comments'' = None \<longrightarrow> map_of stored ''comments'' = Some PNone"
    by (elim conjE exE)
  from o[rule_format, of "''candidate_id''" "PStr ''c1''"]
  have 1: "map_of stored ''candidate_id'' = Some (PStr ''c1'')" by simp
  from o[rule_format, of "''recommendation''" "PStr ''proceed''"]
  have 2: "map_of stored ''recommendation'' = Some (PStr ''proceed'')" by simp
  from n have 3: "map_of stored ''comments'' = Some PNone" by simp
  from r have r': "post_create no_readings (Feedback ''from-path'') ?body (Some empty_store) =
        (Json (PDict [(''id'', PStr ''000000000000000000000000'')]), Some s')"
    by (simp add: empty_store_def oid_str_0)
  from c have c': "colls s' ''feedback'' = [\<lparr>doc_id = 0, doc_fields = stored\<rparr>]"
    by (simp add: empty_store_def)
  from r' c' i 1 2 3 have "\<exists>s' stored.
      post_create no_readings (Feedback ''from-path'') ?body (Some empty_store) =
        (Json (PDict [(''id'', PStr ''000000000000000000000000'')]), Some s') \<and>
      colls s' ''feedback'' = [\<lparr>doc_id = 0, doc_fields = stored\<rparr>] \<and>
      map_of stored ''interview_id'' = Some (PStr ''from-path'') \<and>
      map_of stored ''candidate_id'' = Some (PStr ''c1'') \<and>
      map_of stored ''recommendation'' = Some (PStr ''proceed'') \<and>
      map_of stored ''comments'' = Some PNone"
    by (intro exI[of _ s'] exI[of _ stored] conjI)
  with h show ?thesis by (rule conjI)
qed

section \<open>Fields declared as plain strings\<close>

lemma validate_field_update_other:
  "fst fld \<noteq> f \<Longrightarrow> validate_field lib (AList.update f x body) fld = validate_field lib body fld"
  by (cases fld) (simp add: update_conv')

lemma validate_field_update_str:
  "validate_field lib (AList.update f (PStr v) body) (f, Str, d) = Inr (f, PStr v)"
  by (simp add: update_conv')

lemma str_field_any_string:
  assumes "\<forall>fld \<in> set cls. fst fld = f \<longrightarrow> fst (snd fld) = Str"
  shows "isl (validate lib cls (AList.update f (PStr v) body)) =
         isl (validate lib cls (AList.update f (PStr w) body))"
proof -
  have "isl (validate_field lib (AList.update f (PStr v) body) fld) =
        isl (validate_field lib (AList.update f (PStr w) body) fld)" if "fld \<in> set cls" for fld
  proof (cases "fst fld = f")
    case True
    with assms that obtain d where "fld = (f, Str, d)"
      by (cases fld) auto
    then show ?thesis by (simp add: update_conv')
  next
    case False
    then show ?thesis by (metis validate_field_update_other)
  qed
  then show ?thesis
    by (simp add: validate_isl_iff list_ex_iff)
qed

lemma enum_field_is_str:
  "(f, vals) \<in> set (enum_fields r) \<Longrightarrow>
   \<forall>fld \<in> set (route_class r). fst fld = f \<longrightarrow> fst (snd fld) = Str"
  by (cases r)
    (auto simp: JobIn_def CandidateIn_def InterviewIn_def FeedbackIn_def OfferIn_def
      OnboardingTaskIn_def)

lemma enum_field_declared:
  "(f, vals) \<in> set (enum_fields r) \<Longrightarrow>
   (\<exists>d. (f, Str, d) \<in> set (route_class r)) \<and> f \<noteq> ''interview_id''"
  by (cases r)
    (auto simp: JobIn_def CandidateIn_def InterviewIn_def FeedbackIn_def OfferIn_def
      OnboardingTaskIn_def)

lemma route_class_distinct: "distinct (map fst (route_class r))"
  by (cases r)
    (simp_all add: JobIn_def CandidateIn_def InterviewIn_def FeedbackIn_def OfferIn_def
      OnboardingTaskIn_def MessageIn_def)

lemma map_of_route_payload:
  "k \<noteq> ''interview_id'' \<Longrightarrow> map_of (route_payload r m) k = map_of m k"
  by (cases r) (simp_all add: update_conv')

text \<open>
  Claim C1, as amended.  The request models declare the enumerated fields as plain
  strings.  For every create route and each of its enumerated fields: a body that fails
  the request model's checks is answered with status 422 and the store is left as it
  was; whether a body is rejected does not depend on which string the enumerated field
  holds, listed or not; and an accepted body is inserted with the string submitted.
\<close>

theorem create_enum_field_accepts_any_string:
  assumes "(f, vals) \<in> set (enum_fields r)"
  shows "(validate lib (route_class r) body = Inl errs \<longrightarrow>
            post_create lib r body db = (RequestValidationError errs, db) \<and>
            status_code (fst (post_create lib r body db)) = 422) \<and>
         isl (validate lib (route_class r) (AList.update f (PStr v) body)) =
           isl (validate lib (route_class r) (AList.update f (PStr w) body)) \<and>
         (validate lib (route_class r) body = Inr m \<longrightarrow> map_of body f = Some (PStr v) \<longrightarrow>
            post_create lib r body (Some s) =
              (Json (PDict [(''id'', PStr (oid_str (next_oid s)))]),
               Some (insert_one (route_collection r) (route_payload r m) s)) \<and>
            map_of (route_payload r m) f = Some (PStr v))"
proof (intro conjI impI)
  assume "validate lib (route_class r) body = Inl errs"
  then show "post_create lib r body db = (RequestValidationError errs, db)"
    by (rule post_create_rejected)
  then show "status_code (fst (post_create lib r body db)) = 422"
    by simp
next
  show "isl (validate lib (route_class r) (AList.update f (PStr v) body)) =
        isl (validate lib (route_class r) (AList.update f (PStr w) body))"
    using enum_field_is_str[OF assms] by (rule str_field_any_string)
next
  assume ok: "validate lib (route_class r) body = Inr m" and v: "map_of body f = Some (PStr v)"
  from ok show "post_create lib r body (Some s) =
      (Json (PDict [(''id'', PStr (oid_str (next_oid s)))]),
       Some (insert_one (route_collection r) (route_payload r m) s))"
    by (rule post_create_accepted)
  from enum_field_declared[OF assms] obtain d where d: "(f, Str, d) \<in> set (route_class r)"
    and ne: "f \<noteq> ''interview_id''"
    by blast
  from validate_submitted[OF ok route_class_distinct d _ _ v] have "map_of m f = Some (PStr v)"
    by simp
  with ne show "map_of (route_payload r m) f = Some (PStr v)"
    by (simp add: map_of_route_payload)
qed



text \<open>
  Claim C1, as stated, fails: a job whose status is outside the set listed in schemas.py
  is accepted and inserted.
\<close>

theorem create_job_unlisted_status_counterexample:
  "(''status'', [''draft'', ''open'', ''paused'', ''closed'']) \<in> set (enum_fields Jobs) \<and>
   ''bogus'' \<notin> set [''draft'', ''open'', ''paused'', ''closed''] \<and>
   fst (post_create no_readings Jobs
          [(''title'', PStr ''QA Engineer''), (''department'', PStr ''Engineering''),
           (''owner'', PStr ''Sam''), (''status'', PStr ''bogus'')]
          (Some empty_store)) =
     Json (PDict [(''id'', PStr ''000000000000000000000000'')]) \<and>
   map_option (\<lambda>s. colls s ''job'')
     (snd (post_create no_readings Jobs
          [(''title'', PStr ''QA Engineer''), (''department'', PStr ''Engineering''),
           (''owner'', PStr ''Sam''), (''status'', PStr ''bogus'')]
          (Some empty_store))) =
     Some [\<lparr>doc_id = 0, doc_fields =
             [(''title'', PStr ''QA Engineer''), (''department'', PStr ''Engineering''),
              (''location'', PStr ''Remote''), (''status'', PStr ''bogus''),
              (''owner'', PStr ''Sam''), (''description'', PNone)]\<rparr>]"
  by (simp add: post_create_def post_def JobIn_def create_job_def model_dump_def
      create_document_def insert_one_def empty_store_def oid_str_0)


theorem create_enum_field_accepts_any_string_witness:
  "(''assignee'', [''HR'', ''IT'', ''Admin'']) \<in> set (enum_fields Onboarding) \<and>
   validate no_readings (route_class Onboarding)
     [(''candidate_id'', PStr ''c1''), (''task'', PStr ''Laptop''), (''assignee'', PStr ''Legal'')] =
     Inr [(''candidate_id'', PStr ''c1''), (''task'', PStr ''Laptop''),
          (''assignee'', PStr ''Legal''), (''status'', PStr ''pending'')] \<and>
   post_create no_readings Onboarding
     [(''candidate_id'', PStr ''c1''), (''task'', PStr ''Laptop''), (''assignee'', PStr ''Legal'')]
     (Some empty_store) =
     (Json (PDict [(''id'', PStr ''000000000000000000000000'')]),
      Some (insert_one ''onboardingtask''
              [(''candidate_id'', PStr ''c1''), (''task'', PStr ''Laptop''),
               (''assignee'', PStr ''Legal''), (''status'', PStr ''pending'')] empty_store)) \<and>
   validate no_readings (route_class Onboarding) [(''assignee'', PStr ''Legal'')] =
     Inl [Missing ''candidate_id'', Missing ''task''] \<and>
   post_create no_readings Onboarding [(''assignee'', PStr ''Legal'')] (Some empty_store) =
     (RequestValidationError [Missing ''candidate_id'', Missing ''task''], Some empty_store)"
proof -
  let ?body = "[(''candidate_id'', PStr ''c1''), (''task'', PStr ''Laptop''),
                (''assignee'', PStr ''Legal'')]"
  let ?m = "[(''candidate_id'', PStr ''c1''), (''task'', PStr ''Laptop''),
             (''assignee'', PStr ''Legal''), (''status'', PStr ''pending'')]"
  have e: "(''assignee'', [''HR'', ''IT'', ''Admin'']) \<in> set (enum_fields Onboarding)"
    by simp
  have ok: "validate no_readings (route_class Onboarding) ?body = Inr ?m"
    by (simp add: OnboardingTaskIn_def)
  have v: "map_of ?body ''assignee'' = Some (PStr ''Legal'')"
    by simp
  have bad: "validate no_readings (route_class Onboarding) [(''assignee'', PStr ''Legal'')] =
      Inl [Missing ''candidate_id'', Missing ''task'']"
    by (simp add: OnboardingTaskIn_def)
  from create_enum_field_accepts_any_string[OF e, where body = ?body and v = "''Legal''"
      and m = ?m and s = empty_store] ok v
  have "post_create no_readings Onboarding ?body (Some empty_store) =
      (Json (PDict [(''id'', PStr (oid_str (next_oid empty_store)))]),
       Some (insert_one (route_collection Onboarding) (route_payload Onboarding ?m) empty_store))"
    by blast
  moreover
  from create_enum_field_accepts_any_string[OF e, where body = "[(''assignee'', PStr ''Legal'')]"
      and errs = "[Missing ''candidate_id'', Missing ''task'']" and db = "Some empty_store"] bad
  have "post_create no_readings Onboarding [(''assignee'', PStr ''Legal'')] (Some empty_store) =
      (RequestValidationError [Missing ''candidate_id'', Missing ''task''], Some empty_store)"
    by blast
  ultimately show ?thesis
    using e ok bad by (simp add: empty_store_def oid_str_0)
qed

section \<open>The email of a candidate\<close>

lemma candidate_email_is_str:
  "\<forall>fld \<in> set CandidateIn. fst fld = ''email'' \<longrightarrow> fst (snd fld) = Str"
  by (simp add: CandidateIn_def)

lemma validate_rejects:
  "fld \<in> set cls \<Longrightarrow> isl (validate_field lib body fld) \<Longrightarrow> isl (validate lib cls body)"
  by (auto simp: validate_isl_iff list_ex_iff)

text \<open>
  Claim C4, as amended.  The request model declares \<^verbatim>\<open>email\<close> as a plain string.  Whether
  a candidate body is rejected does not depend on which string the email is; a rejected
  body is answered with status 422 and inserts nothing; a body without an email, or with
  an email that is not a string, is rejected; an accepted body is inserted with the email
  submitted.
\<close>

theorem create_candidate_accepts_any_email_string:
  "isl (validate lib CandidateIn (AList.update ''email'' (PStr e) body)) =
     isl (validate lib CandidateIn (AList.update ''email'' (PStr e') body)) \<and>
   (validate lib CandidateIn body = Inl errs \<longrightarrow>
      post_create lib Candidates body db = (RequestValidationError errs, db) \<and>
      status_code (fst (post_create lib Candidates body db)) = 422) \<and>
   (map_of body ''email'' = None \<longrightarrow> isl (validate lib CandidateIn body)) \<and>
   (map_of body ''email'' = Some x \<longrightarrow> \<not> is_str x \<longrightarrow> isl (validate lib CandidateIn body)) \<and>
   (validate lib CandidateIn body = Inr m \<longrightarrow> map_of body ''email'' = Some (PStr e) \<longrightarrow>
      post_create lib Candidates body (Some s) =
        (Json (PDict [(''id'', PStr (oid_str (next_oid s)))]),
         Some (insert_one ''candidate'' m s)) \<and>
      map_of m ''email'' = Some (PStr e))"
proof (intro conjI impI)
  show "isl (validate lib CandidateIn (AList.update ''email'' (PStr e) body)) =
        isl (validate lib CandidateIn (AList.update ''email'' (PStr e') body))"
    using candidate_email_is_str by (rule str_field_any_string)
next
  assume "validate lib CandidateIn body = Inl errs"
  then have "validate lib (route_class Candidates) body = Inl errs" by simp
  then show "post_create lib Candidates body db = (RequestValidationError errs, db)"
    by (rule post_create_rejected)
  then show "status_code (fst (post_create lib Candidates body db)) = 422"
    by simp
next
  have mem: "(''email'', Str, Required) \<in> set CandidateIn"
    by (simp add: CandidateIn_def)
  {
    assume "map_of body ''email'' = None"
    then have "isl (validate_field lib body (''email'', Str, Required))" by simp
    with mem show "isl (validate lib CandidateIn body)" by (rule validate_rejects)
  }
  {
    assume "map_of body ''email'' = Some x" and "\<not> is_str x"
    then have "isl (validate_field lib body (''email'', Str, Required))" by simp
    with mem show "isl (validate lib CandidateIn body)" by (rule validate_rejects)
  }
next
  assume ok: "validate lib CandidateIn body = Inr m" and v: "map_of body ''email'' = Some (PStr e)"
  from ok have ok': "validate lib (route_class Candidates) body = Inr m" by simp
  from post_create_accepted[OF ok', of s]
  show "post_create lib Candidates body (Some s) =
      (Json (PDict [(''id'', PStr (oid_str (next_oid s)))]), Some (insert_one ''candidate'' m s))"
    by simp
  have "(''email'', Str, Required) \<in> set (route_class Candidates)"
    by (simp add: CandidateIn_def)
  from validate_submitted[OF ok' route_class_distinct this _ _ v]
  show "map_of m ''email'' = Some (PStr e)"
    by simp
qed

text \<open>
  Claim C4, as stated, fails: a candidate whose email has no \<^verbatim>\<open>@\<close> is accepted and
  inserted.
\<close>

theorem create_candidate_invalid_email_counterexample:
  "\<not> email_shape ''not-an-email'' \<and>
   fst (post_create no_readings Candidates
          [(''name'', PStr ''Jo''), (''email'', PStr ''not-an-email'')] (Some empty_store)) =
     Json (PDict [(''id'', PStr ''000000000000000000000000'')]) \<and>
   map_option (\<lambda>s. map (\<lambda>d. map_of (doc_fields d) ''email'') (colls s ''candidate''))
     (snd (post_create no_readings Candidates
          [(''name'', PStr ''Jo''), (''email'', PStr ''not-an-email'')] (Some empty_store))) =
     Some [Some (PStr ''not-an-email'')]"
  by (simp add: email_shape_def post_create_def post_def CandidateIn_def create_candidate_def
      model_dump_def create_document_def insert_one_def empty_store_def oid_str_0)

theorem create_candidate_accepts_any_email_string_witness:
  "validate no_readings CandidateIn [(''name'', PStr ''Jo''), (''email'', PStr ''not-an-email'')] =
     Inr [(''name'', PStr ''Jo''), (''email'', PStr ''not-an-email''), (''phone'', PNone),
          (''current_role'', PNone), (''stage'', PStr ''applied''), (''resume_url'', PNone),
          (''skills'', PList []), (''assessment_scores'', PNone), (''notes'', PNone),
          (''job_id'', PNone), (''salary_expectation'', PNone), (''avatar_url'', PNone)] \<and>
   post_create no_readings Candidates [(''name'', PStr ''Jo''), (''email'', PStr ''not-an-email'')]
     (Some empty_store) =
     (Json (PDict [(''id'', PStr ''000000000000000000000000'')]),
      Some (insert_one ''candidate''
        [(''name'', PStr ''Jo''), (''email'', PStr ''not-an-email''), (''phone'', PNone),
          (''current_role'', PNone), (''stage'', PStr ''applied''), (''resume_url'', PNone),
          (''skills'', PList []), (''assessment_scores'', PNone), (''notes'', PNone),
          (''job_id'', PNone), (''salary_expectation'', PNone), (''avatar_url'', PNone)]
        empty_store)) \<and>
   isl (validate no_readings CandidateIn [(''name'', PStr ''Jo'')]) \<and>
   isl (validate no_readings CandidateIn [(''name'', PStr ''Jo''), (''email'', PInt 7)])"
proof -
  let ?body = "[(''name'', PStr ''Jo''), (''email'', PStr ''not-an-email'')]"
  let ?m = "[(''name'', PStr ''Jo''), (''email'', PStr ''not-an-email''), (''phone'', PNone),
          (''current_role'', PNone), (''stage'', PStr ''applied''), (''resume_url'', PNone),
          (''skills'', PList []), (''assessment_scores'', PNone), (''notes'', PNone),
          (''job_id'', PNone), (''salary_expectation'', PNone), (''avatar_url'', PNone)]"
  have ok: "validate no_readings CandidateIn ?body = Inr ?m"
    by (simp add: CandidateIn_def)
  have v: "map_of ?body ''email'' = Some (PStr ''not-an-email'')"
    by simp
  from create_candidate_accepts_any_email_string[where body = ?body and m = ?m
      and e = "''not-an-email''" and s = empty_store]
    ok v
  have 1: "post_create no_readings Candidates ?body (Some empty_store) =
        (Json (PDict [(''id'', PStr (oid_str (next_oid empty_store)))]),
         Some (insert_one ''candidate'' ?m empty_store))"
    by blast
  have "map_of [(''name'', PStr ''Jo'')] ''email'' = None" by simp
  with create_candidate_accepts_any_email_string[where body = "[(''name'', PStr ''Jo'')]"]
  have 2: "isl (validate no_readings CandidateIn [(''name'', PStr ''Jo'')])"
    by blast
  have "map_of [(''name'', PStr ''Jo''), (''email'', PInt 7)] ''email'' = Some (PInt 7)"
    and "\<not> is_str (PInt 7)"
    by simp_all
  with create_candidate_accepts_any_email_string[where
      body = "[(''name'', PStr ''Jo''), (''email'', PInt 7)]" and x = "PInt 7"]
  have 3: "isl (validate no_readings CandidateIn [(''name'', PStr ''Jo''), (''email'', PInt 7)])"
    by blast
  from ok 1 2 3 show ?thesis
    by (simp add: empty_store_def oid_str_0)
qed


section \<open>Messages\<close>





section \<open>Metrics\<close>

lemma matches_value_str:
  "\<forall>xs. fv \<noteq> Some (PList xs) \<Longrightarrow> matches_value fv (PStr x) = (fv = Some (PStr x))"
proof (cases fv)
  case None
  then show ?thesis by simp
next
  case (Some w)
  assume "\<forall>xs. fv \<noteq> Some (PList xs)"
  with Some show ?thesis by (cases w) auto
qed

lemma count_documents_all: "count_documents c [] s = length (colls s c)"
  by (simp add: count_documents_def matches_def)

lemma filter_cong_set: "(\<And>x. x \<in> set xs \<Longrightarrow> P x = Q x) \<Longrightarrow> filter P xs = filter Q xs"
  by (induction xs) auto

text \<open>
  Claim C5.  With a store, the metrics count all job documents, the candidate documents
  whose stage is neither rejected nor hired, and the offer documents whose status is
  sent, accepted or declined, on the store as it is at the call; the time to fill is the
  constant 24.  Without a store every count is 0.  Stage and status are taken not to be
  arrays, as the API writes them.
\<close>

theorem get_metrics_counts:
  assumes "\<forall>d \<in> set (colls s ''candidate''). \<forall>xs. map_of (doc_fields d) ''stage'' \<noteq> Some (PList xs)"
    and "\<forall>d \<in> set (colls s ''offer''). \<forall>xs. map_of (doc_fields d) ''status'' \<noteq> Some (PList xs)"
  shows "get_metrics (Some s) =
      PDict [(''total_jobs'', PInt (int (length (colls s ''job'')))),
             (''active_candidates'',
                PInt (int (length (filter
                  (\<lambda>d. map_of (doc_fields d) ''stage'' \<noteq> Some (PStr ''rejected'') \<and>
                       map_of (doc_fields d) ''stage'' \<noteq> Some (PStr ''hired''))
                  (colls s ''candidate''))))),
             (''offers_sent'',
                PInt (int (length (filter
                  (\<lambda>d. map_of (doc_fields d) ''status'' = Some (PStr ''sent'') \<or>
                       map_of (doc_fields d) ''status'' = Some (PStr ''accepted'') \<or>
                       map_of (doc_fields d) ''status'' = Some (PStr ''declined''))
                  (colls s ''offer''))))),
             (''time_to_fill'', PInt 24)] \<and>
    get_metrics None =
      PDict [(''total_jobs'', PInt 0), (''active_candidates'', PInt 0),
             (''offers_sent'', PInt 0), (''time_to_fill'', PInt 24)]"
proof -
  have cand: "filter (matches [Field ''stage'' (Nin [PStr ''rejected'', PStr ''hired''])])
        (colls s ''candidate'') =
      filter (\<lambda>d. map_of (doc_fields d) ''stage'' \<noteq> Some (PStr ''rejected'') \<and>
                   map_of (doc_fields d) ''stage'' \<noteq> Some (PStr ''hired''))
        (colls s ''candidate'')"
  proof (rule filter_cong_set)
    fix d assume "d \<in> set (colls s ''candidate'')"
    with assms(1) have "\<forall>xs. map_of (doc_fields d) ''stage'' \<noteq> Some (PList xs)" by blast
    then show "matches [Field ''stage'' (Nin [PStr ''rejected'', PStr ''hired''])] d =
        (map_of (doc_fields d) ''stage'' \<noteq> Some (PStr ''rejected'') \<and>
         map_of (doc_fields d) ''stage'' \<noteq> Some (PStr ''hired''))"
      by (simp add: matches_def matches_value_str)
  qed
  have off: "filter (matches [Field ''status'' (In [PStr ''sent'', PStr ''accepted'', PStr ''declined''])])
        (colls s ''offer'') =
      filter (\<lambda>d. map_of (doc_fields d) ''status'' = Some (PStr ''sent'') \<or>
                   map_of (doc_fields d) ''status'' = Some (PStr ''accepted'') \<or>
                   map_of (doc_fields d) ''status'' = Some (PStr ''declined''))
        (colls s ''offer'')"
  proof (rule filter_cong_set)
    fix d assume "d \<in> set (colls s ''offer'')"
    with assms(2) have "\<forall>xs. map_of (doc_fields d) ''status'' \<noteq> Some (PList xs)" by blast
    then show "matches [Field ''status'' (In [PStr ''sent'', PStr ''accepted'', PStr ''declined''])] d =
        (map_of (doc_fields d) ''status'' = Some (PStr ''sent'') \<or>
         map_of (doc_fields d) ''status'' = Some (PStr ''accepted'') \<or>
         map_of (doc_fields d) ''status'' = Some (PStr ''declined''))"
      by (simp add: matches_def matches_value_str)
  qed
  have some: "get_metrics (Some s) =
      PDict [(''total_jobs'', PInt (int (length (colls s ''job'')))),
             (''active_candidates'',
                PInt (int (length (filter
                  (matches [Field ''stage'' (Nin [PStr ''rejected'', PStr ''hired''])])
                  (colls s ''candidate''))))),
             (''offers_sent'',
                PInt (int (length (filter
                  (matches [Field ''status'' (In [PStr ''sent'', PStr ''accepted'', PStr ''declined''])])
                  (colls s ''offer''))))),
             (''time_to_fill'', PInt 24)]"
    by (simp add: get_metrics_def count_def count_documents_def matches_def Let_def)
  have none: "get_metrics None =
      PDict [(''total_jobs'', PInt 0), (''active_candidates'', PInt 0),
             (''offers_sent'', PInt 0), (''time_to_fill'', PInt 24)]"
    by (simp add: get_metrics_def count_def)
  from some none show ?thesis
    by (simp only: cand off simp_thms)
qed


theorem get_metrics_counts_witness:
  "get_metrics (Some \<lparr>colls = (\<lambda>c. [])
       (''job'' := [\<lparr>doc_id = 0, doc_fields = [(''title'', PStr ''QA'')]\<rparr>],
        ''candidate'' :=
          [\<lparr>doc_id = 1, doc_fields = [(''name'', PStr ''A''), (''stage'', PStr ''interview'')]\<rparr>,
           \<lparr>doc_id = 2, doc_fields = [(''name'', PStr ''B''), (''stage'', PStr ''rejected'')]\<rparr>,
           \<lparr>doc_id = 3, doc_fields = [(''name'', PStr ''C''), (''stage'', PStr ''hired'')]\<rparr>,
           \<lparr>doc_id = 4, doc_fields = [(''name'', PStr ''D'')]\<rparr>],
        ''offer'' :=
          [\<lparr>doc_id = 5, doc_fields = [(''status'', PStr ''sent'')]\<rparr>,
           \<lparr>doc_id = 6, doc_fields = [(''status'', PStr ''draft'')]\<rparr>]),
     next_oid = 7\<rparr>) =
   PDict [(''total_jobs'', PInt 1), (''active_candidates'', PInt 2),
          (''offers_sent'', PInt 1), (''time_to_fill'', PInt 24)]"
proof -
  let ?s = "\<lparr>colls = (\<lambda>c. [])
       (''job'' := [\<lparr>doc_id = 0, doc_fields = [(''title'', PStr ''QA'')]\<rparr>],
        ''candidate'' :=
          [\<lparr>doc_id = 1, doc_fields = [(''name'', PStr ''A''), (''stage'', PStr ''interview'')]\<rparr>,
           \<lparr>doc_id = 2, doc_fields = [(''name'', PStr ''B''), (''stage'', PStr ''rejected'')]\<rparr>,
           \<lparr>doc_id = 3, doc_fields = [(''name'', PStr ''C''), (''stage'', PStr ''hired'')]\<rparr>,
           \<lparr>doc_id = 4, doc_fields = [(''name'', PStr ''D'')]\<rparr>],
        ''offer'' :=
          [\<lparr>doc_id = 5, doc_fields = [(''status'', PStr ''sent'')]\<rparr>,
           \<lparr>doc_id = 6, doc_fields = [(''status'', PStr ''draft'')]\<rparr>]),
     next_oid = 7\<rparr>"
  have c: "\<forall>d \<in> set (colls ?s ''candidate''). \<forall>xs. map_of (doc_fields d) ''stage'' \<noteq> Some (PList xs)"
    by simp
  have o: "\<forall>d \<in> set (colls ?s ''offer''). \<forall>xs. map_of (doc_fields d) ''status'' \<noteq> Some (PList xs)"
    by simp
  from get_metrics_counts[OF c o] show ?thesis
    by simp
qed


section \<open>State transitions\<close>

lemma update_first_none: "\<forall>d \<in> set ds. \<not> p d \<Longrightarrow> update_first p f ds = ds"
  by (induction ds) auto

lemma update_first_split:
  "update_first p f ds = ds \<or>
   (\<exists>pre d post. ds = pre @ d # post \<and> p d \<and> update_first p f ds = pre @ f d # post)"
proof (induction ds)
  case Nil
  then show ?case by simp
next
  case (Cons x xs)
  show ?case
  proof (cases "p x")
    case True
    then have "x # xs = [] @ x # xs \<and> p x \<and> update_first p f (x # xs) = [] @ f x # xs"
      by simp
    then show ?thesis by blast
  next
    case False
    from Cons.IH show ?thesis
    proof
      assume "update_first p f xs = xs"
      with False show ?thesis by simp
    next
      assume "\<exists>pre d post. xs = pre @ d # post \<and> p d \<and> update_first p f xs = pre @ f d # post"
      then obtain pre d post where "xs = pre @ d # post" "p d"
        "update_first p f xs = pre @ f d # post"
        by blast
      with False have "x # xs = (x # pre) @ d # post \<and> p d \<and>
          update_first p f (x # xs) = (x # pre) @ f d # post"
        by simp
      then show ?thesis by blast
    qed
  qed
qed

lemma update_first_ids:
  "(\<And>d. doc_id (f d) = doc_id d) \<Longrightarrow> map doc_id (update_first p f ds) = map doc_id ds"
  by (induction ds) auto

lemma update_first_hit:
  assumes "distinct (map doc_id ds)" and "\<And>d. doc_id (f d) = doc_id d"
    and "d' \<in> set (update_first (\<lambda>d. doc_id d = i) f ds)" and "doc_id d' = i"
  shows "\<exists>d. d' = f d"
  using assms(1,3)
proof (induction ds)
  case Nil
  then show ?case by simp
next
  case (Cons x xs)
  show ?case
  proof (cases "doc_id x = i")
    case True
    with Cons.prems have "d' = f x \<or> d' \<in> set xs" by simp
    then show ?thesis
    proof
      assume "d' = f x" then show ?thesis by blast
    next
      assume "d' \<in> set xs"
      with assms(4) have "i \<in> set (map doc_id xs)" by force
      with True Cons.prems(1) show ?thesis by simp
    qed
  next
    case False
    with Cons.prems assms(4) have "d' \<in> set (update_first (\<lambda>d. doc_id d = i) f xs)"
      by auto
    with Cons.IH Cons.prems(1) show ?thesis by simp
  qed
qed

lemma map_of_set_two:
  "map_of (set_fields [(a, x), (b, y)] d) k =
     (if k = b then Some y else if k = a then Some x else map_of d k)"
  by (simp add: update_conv')

lemma matches_by_id: "matches [ById i] = (\<lambda>d. doc_id d = i)"
  by (rule ext) (simp add: matches_def)

lemma update_one_single:
  "single_update c i [a, b] s (update_one c [ById i] [(a, x), (b, y)] s)"
proof -
  let ?f = "\<lambda>d. d\<lparr>doc_fields := set_fields [(a, x), (b, y)] (doc_fields d)\<rparr>"
  let ?p = "\<lambda>d. doc_id d = i"
  have c: "colls (update_one c [ById i] [(a, x), (b, y)] s) c = update_first ?p ?f (colls s c)"
    by (simp add: update_one_def matches_by_id)
  have o: "\<forall>c'. c' \<noteq> c \<longrightarrow> colls (update_one c [ById i] [(a, x), (b, y)] s) c' = colls s c'"
    by (simp add: update_one_def)
  have n: "next_oid (update_one c [ById i] [(a, x), (b, y)] s) = next_oid s"
    by (simp add: update_one_def)
  have fr: "only_fields_changed [a, b] d (?f d)" for d
    unfolding only_fields_changed_def by (simp add: update_conv')
  from update_first_split[of ?p ?f "colls s c"]
  have "update_first ?p ?f (colls s c) = colls s c \<or>
      (\<exists>pre d d' post. colls s c = pre @ d # post \<and>
          update_first ?p ?f (colls s c) = pre @ d' # post \<and>
          doc_id d = i \<and> only_fields_changed [a, b] d d')"
    using fr by blast
  with c o n show ?thesis
    unfolding single_update_def by simp
qed

lemma update_one_missing:
  assumes "\<forall>d \<in> set (colls s c). doc_id d \<noteq> i"
  shows "update_one c [ById i] upd s = s"
proof -
  from assms have "update_first (matches [ById i])
      (\<lambda>d. d\<lparr>doc_fields := set_fields upd (doc_fields d)\<rparr>) (colls s c) = colls s c"
    by (intro update_first_none) (simp add: matches_by_id)
  then show ?thesis
    by (simp add: update_one_def)
qed

lemma update_one_sets:
  assumes "distinct (map doc_id (colls s c))"
    and "d' \<in> set (colls (update_one c [ById i] [(a, x), (b, y)] s) c)" and "doc_id d' = i"
  shows "map_of (doc_fields d') b = Some y \<and> (a \<noteq> b \<longrightarrow> map_of (doc_fields d') a = Some x)"
proof -
  let ?f = "\<lambda>d. d\<lparr>doc_fields := set_fields [(a, x), (b, y)] (doc_fields d)\<rparr>"
  from assms(2) have "d' \<in> set (update_first (\<lambda>d. doc_id d = i) ?f (colls s c))"
    by (simp add: update_one_def matches_by_id)
  from update_first_hit[OF assms(1) _ this assms(3)]
  obtain d where "d' = ?f d" by auto
  then show ?thesis
    by (simp add: update_conv')
qed

lemma update_one_ids:
  "map doc_id (colls (update_one c q upd s) c') = map doc_id (colls s c')"
  by (simp add: update_one_def update_first_ids)

lemma post_stage_valid:
  "map_of body ''stage'' = Some (PStr st) \<Longrightarrow>
   post_candidate_stage lib cid body now fault db =
     update_candidate_stage cid [(''stage'', PStr st)] now fault db"
  by (simp add: post_candidate_stage_def post_def StageUpdate_def)

lemma post_status_valid:
  "map_of body ''status'' = Some (PStr st) \<Longrightarrow>
   post_offer_status lib oid body now fault db =
     update_offer_status oid [(''status'', PStr st)] now fault db"
  by (simp add: post_offer_status_def post_def OfferStatus_def)

lemma post_stage_invalid:
  "\<forall>st. map_of body ''stage'' \<noteq> Some (PStr st) \<Longrightarrow>
   \<exists>errs. post_candidate_stage lib cid body now fault db = (RequestValidationError errs, db)"
proof (cases "map_of body ''stage''")
  case None
  then show ?thesis by (simp add: post_candidate_stage_def post_def StageUpdate_def)
next
  case (Some v)
  assume "\<forall>st. map_of body ''stage'' \<noteq> Some (PStr st)"
  with Some have "\<not> is_str v" by (cases v) auto
  with Some show ?thesis by (simp add: post_candidate_stage_def post_def StageUpdate_def)
qed

lemma post_status_invalid:
  "\<forall>st. map_of body ''status'' \<noteq> Some (PStr st) \<Longrightarrow>
   \<exists>errs. post_offer_status lib oid body now fault db = (RequestValidationError errs, db)"
proof (cases "map_of body ''status''")
  case None
  then show ?thesis by (simp add: post_offer_status_def post_def OfferStatus_def)
next
  case (Some v)
  assume "\<forall>st. map_of body ''status'' \<noteq> Some (PStr st)"
  with Some have "\<not> is_str v" by (cases v) auto
  with Some show ?thesis by (simp add: post_offer_status_def post_def OfferStatus_def)
qed

lemma ObjectId_zeros: "ObjectId ''000000000000000000000000'' = Some 0"
  by code_simp

lemma ObjectId_short: "ObjectId ''xyz'' = None"
  by code_simp


section \<open>Status codes of the state transitions\<close>

lemma update_candidate_stage_cases:
  "update_candidate_stage cid [(''stage'', PStr st)] now fault db =
     (case db of
        None \<Rightarrow> (HTTPException 500 (Text ''Database not available''), None)
      | Some s \<Rightarrow>
          (case ObjectId cid of
             None \<Rightarrow> (HTTPException 400 (Str_of (InvalidId cid)), Some s)
           | Some i \<Rightarrow>
               (case fault of
                  Some e \<Rightarrow> (HTTPException 400 (Str_of (StoreError e)), Some s)
                | None \<Rightarrow>
                    (Json status_ok,
                     Some (update_one ''candidate'' [ById i]
                             [(''stage'', PStr st), (''updated_at'', PDatetime now)] s)))))"
  by (simp add: update_candidate_stage_def getattr_def split: option.splits)

lemma update_offer_status_cases:
  "update_offer_status oid [(''status'', PStr st)] now fault db =
     (case db of
        None \<Rightarrow> (HTTPException 500 (Text ''Database not available''), None)
      | Some s \<Rightarrow>
          (case ObjectId oid of
             None \<Rightarrow> (HTTPException 400 (Str_of (InvalidId oid)), Some s)
           | Some i \<Rightarrow>
               (case fault of
                  Some e \<Rightarrow> (HTTPException 400 (Str_of (StoreError e)), Some s)
                | None \<Rightarrow>
                    (Json status_ok,
                     Some (update_one ''offer'' [ById i]
                             [(''status'', PStr st), (''updated_at'', PDatetime now)] s)))))"
  by (simp add: update_offer_status_def getattr_def split: option.splits)

text \<open>
  Claim C8, as amended.  With a body that passes validation, each state-transition
  endpoint answers 500 when there is no store, 400 when the id is not an object id or
  when the update raises an error of the store, and 200 otherwise; an error of the store
  is answered with status 400 and the error's text as detail, and leaves the store as it
  was.
\<close>

theorem transition_status_codes:
  "(map_of body ''stage'' = Some (PStr st) \<longrightarrow>
      status_code (fst (post_candidate_stage lib cid body now fault db)) =
        (if db = None then 500 else if ObjectId cid = None \<or> fault \<noteq> None then 400 else 200) \<and>
      (ObjectId cid \<noteq> None \<longrightarrow>
         post_candidate_stage lib cid body now (Some e) (Some s) =
           (HTTPException 400 (Str_of (StoreError e)), Some s))) \<and>
   (map_of body ''status'' = Some (PStr st) \<longrightarrow>
      status_code (fst (post_offer_status lib cid body now fault db)) =
        (if db = None then 500 else if ObjectId cid = None \<or> fault \<noteq> None then 400 else 200) \<and>
      (ObjectId cid \<noteq> None \<longrightarrow>
         post_offer_status lib cid body now (Some e) (Some s) =
           (HTTPException 400 (Str_of (StoreError e)), Some s)))"
proof (intro conjI impI)
  assume b: "map_of body ''stage'' = Some (PStr st)"
  show "status_code (fst (post_candidate_stage lib cid body now fault db)) =
      (if db = None then 500 else if ObjectId cid = None \<or> fault \<noteq> None then 400 else 200)"
    by (simp add: post_stage_valid[OF b] update_candidate_stage_cases split: option.splits)
  assume "ObjectId cid \<noteq> None"
  then show "post_candidate_stage lib cid body now (Some e) (Some s) =
      (HTTPException 400 (Str_of (StoreError e)), Some s)"
    by (auto simp: post_stage_valid[OF b] update_candidate_stage_cases split: option.splits)
next
  assume b: "map_of body ''status'' = Some (PStr st)"
  show "status_code (fst (post_offer_status lib cid body now fault db)) =
      (if db = None then 500 else if ObjectId cid = None \<or> fault \<noteq> None then 400 else 200)"
    by (simp add: post_status_valid[OF b] update_offer_status_cases split: option.splits)
  assume "ObjectId cid \<noteq> None"
  then show "post_offer_status lib cid body now (Some e) (Some s) =
      (HTTPException 400 (Str_of (StoreError e)), Some s)"
    by (auto simp: post_status_valid[OF b] update_offer_status_cases split: option.splits)
qed

text \<open>
  Claim C8, as stated, fails: with a well-formed id, an error of the store during the
  update is answered with status 400, on both endpoints.
\<close>

theorem transition_store_error_counterexample:
  "ObjectId ''000000000000000000000000'' = Some 0 \<and>
   post_candidate_stage no_readings ''000000000000000000000000'' [(''stage'', PStr ''offer'')] 0
     (Some ''connection reset'') (Some empty_store) =
     (HTTPException 400 (Str_of (StoreError ''connection reset'')), Some empty_store) \<and>
   status_code (fst (post_candidate_stage no_readings ''000000000000000000000000''
     [(''stage'', PStr ''offer'')] 0 (Some ''connection reset'') (Some empty_store))) = 400 \<and>
   post_offer_status no_readings ''000000000000000000000000'' [(''status'', PStr ''sent'')] 0
     (Some ''connection reset'') (Some empty_store) =
     (HTTPException 400 (Str_of (StoreError ''connection reset'')), Some empty_store) \<and>
   status_code (fst (post_offer_status no_readings ''000000000000000000000000''
     [(''status'', PStr ''sent'')] 0 (Some ''connection reset'') (Some empty_store))) = 400"
  by (simp add: ObjectId_zeros post_candidate_stage_def post_offer_status_def post_def
      StageUpdate_def OfferStatus_def update_candidate_stage_def update_offer_status_def
      getattr_def)

theorem transition_status_codes_witness:
  "status_code (fst (post_candidate_stage no_readings ''xyz'' [(''stage'', PStr ''offer'')] 0 None
     (Some empty_store))) = 400 \<and>
   status_code (fst (post_candidate_stage no_readings ''000000000000000000000000''
     [(''stage'', PStr ''offer'')] 0 None (Some empty_store))) = 200 \<and>
   status_code (fst (post_candidate_stage no_readings ''000000000000000000000000''
     [(''stage'', PStr ''offer'')] 0 None None)) = 500 \<and>
   post_candidate_stage no_readings ''000000000000000000000000'' [(''stage'', PStr ''offer'')] 0
     (Some ''connection reset'') (Some empty_store) =
     (HTTPException 400 (Str_of (StoreError ''connection reset'')), Some empty_store) \<and>
   status_code (fst (post_offer_status no_readings ''xyz'' [(''status'', PStr ''sent'')] 0 None
     (Some empty_store))) = 400 \<and>
   status_code (fst (post_offer_status no_readings ''000000000000000000000000''
     [(''status'', PStr ''sent'')] 0 None (Some empty_store))) = 200 \<and>
   post_offer_status no_readings ''000000000000000000000000'' [(''status'', PStr ''sent'')] 0
     (Some ''connection reset'') (Some empty_store) =
     (HTTPException 400 (Str_of (StoreError ''connection reset'')), Some empty_store)"
proof -
  have c: "map_of [(''stage'', PStr ''offer'')] ''stage'' = Some (PStr ''offer'')"
    and o: "map_of [(''status'', PStr ''sent'')] ''status'' = Some (PStr ''sent'')"
    by simp_all
  note t = transition_status_codes
  from t[where body = "[(''stage'', PStr ''offer'')]" and st = "''offer''" and cid = "''xyz''"
      and now = 0 and fault = None and db = "Some empty_store"] c
  have 1: "status_code (fst (post_candidate_stage no_readings ''xyz'' [(''stage'', PStr ''offer'')] 0 None
     (Some empty_store))) = 400"
    by (simp add: ObjectId_short)
  from t[where body = "[(''stage'', PStr ''offer'')]" and st = "''offer''"
      and cid = "''000000000000000000000000''" and now = 0 and fault = None
      and db = "Some empty_store" and e = "''connection reset''" and s = empty_store] c
  have 2: "status_code (fst (post_candidate_stage no_readings ''000000000000000000000000''
     [(''stage'', PStr ''offer'')] 0 None (Some empty_store))) = 200"
    and 3: "post_candidate_stage no_readings ''000000000000000000000000'' [(''stage'', PStr ''offer'')] 0
     (Some ''connection reset'') (Some empty_store) =
     (HTTPException 400 (Str_of (StoreError ''connection reset'')), Some empty_store)"
    by (simp_all add: ObjectId_zeros)
  from t[where body = "[(''stage'', PStr ''offer'')]" and st = "''offer''"
      and cid = "''000000000000000000000000''" and now = 0 and fault = None and db = None] c
  have 4: "status_code (fst (post_candidate_stage no_readings ''000000000000000000000000''
     [(''stage'', PStr ''offer'')] 0 None None)) = 500"
    by simp
  from t[where body = "[(''status'', PStr ''sent'')]" and st = "''sent''" and cid = "''xyz''"
      and now = 0 and fault = None and db = "Some empty_store"] o
  have 5: "status_code (fst (post_offer_status no_readings ''xyz'' [(''status'', PStr ''sent'')] 0 None
     (Some empty_store))) = 400"
    by (simp add: ObjectId_short)
  from t[where body = "[(''status'', PStr ''sent'')]" and st = "''sent''"
      and cid = "''000000000000000000000000''" and now = 0 and fault = None
      and db = "Some empty_store" and e = "''connection reset''" and s = empty_store] o
  have 6: "status_code (fst (post_offer_status no_readings ''000000000000000000000000''
     [(''status'', PStr ''sent'')] 0 None (Some empty_store))) = 200"
    and 7: "post_offer_status no_readings ''000000000000000000000000'' [(''status'', PStr ''sent'')] 0
     (Some ''connection reset'') (Some empty_store) =
     (HTTPException 400 (Str_of (StoreError ''connection reset'')), Some empty_store)"
    by (simp_all add: ObjectId_zeros)
  from 1 2 3 4 5 6 7 show ?thesis by simp
qed


section \<open>Effect of the state transitions\<close>

text \<open>
  Claim C3, as amended.  For a well-formed id, a store that is available and an update
  that raises no error: a body whose stage is a string, empty or not, is answered with
  the status ok; every candidate with that id then has the stage submitted and
  \<open>updated_at\<close> equal to the time of the call; when no candidate has that id the store is
  unchanged and the answer is the same.  A body without a stage, or with a stage that is
  not a string, is rejected and changes nothing.  Identifiers are unique within the
  collection.
\<close>

theorem candidate_stage_update:
  assumes "ObjectId cid = Some i" and "map_of body ''stage'' = Some (PStr st)"
    and "distinct (map doc_id (colls s ''candidate''))"
  shows "(\<exists>s'. post_candidate_stage lib cid body now None (Some s) = (Json status_ok, Some s') \<and>
      map doc_id (colls s' ''candidate'') = map doc_id (colls s ''candidate'') \<and>
      (\<forall>d' \<in> set (colls s' ''candidate''). doc_id d' = i \<longrightarrow>
          map_of (doc_fields d') ''stage'' = Some (PStr st) \<and>
          map_of (doc_fields d') ''updated_at'' = Some (PDatetime now)) \<and>
      ((\<forall>d \<in> set (colls s ''candidate''). doc_id d \<noteq> i) \<longrightarrow> s' = s)) \<and>
    ((\<forall>v. map_of body' ''stage'' \<noteq> Some (PStr v)) \<longrightarrow>
      (\<exists>errs. post_candidate_stage lib cid body' now fault db = (RequestValidationError errs, db)))"
proof (intro conjI impI)
  let ?s' = "update_one ''candidate'' [ById i]
      [(''stage'', PStr st), (''updated_at'', PDatetime now)] s"
  have run: "post_candidate_stage lib cid body now None (Some s) = (Json status_ok, Some ?s')"
    by (simp add: post_stage_valid[OF assms(2)] update_candidate_stage_cases assms(1))
  have ids: "map doc_id (colls ?s' ''candidate'') = map doc_id (colls s ''candidate'')"
    by (rule update_one_ids)
  have sets: "\<forall>d' \<in> set (colls ?s' ''candidate''). doc_id d' = i \<longrightarrow>
          map_of (doc_fields d') ''stage'' = Some (PStr st) \<and>
          map_of (doc_fields d') ''updated_at'' = Some (PDatetime now)"
  proof (intro ballI impI)
    fix d' assume "d' \<in> set (colls ?s' ''candidate'')" and "doc_id d' = i"
    from update_one_sets[OF assms(3) this]
    show "map_of (doc_fields d') ''stage'' = Some (PStr st) \<and>
          map_of (doc_fields d') ''updated_at'' = Some (PDatetime now)"
      by simp
  qed
  have miss: "(\<forall>d \<in> set (colls s ''candidate''). doc_id d \<noteq> i) \<longrightarrow> ?s' = s"
    by (simp add: update_one_missing)
  from run ids sets miss
  show "\<exists>s'. post_candidate_stage lib cid body now None (Some s) = (Json status_ok, Some s') \<and>
      map doc_id (colls s' ''candidate'') = map doc_id (colls s ''candidate'') \<and>
      (\<forall>d' \<in> set (colls s' ''candidate''). doc_id d' = i \<longrightarrow>
          map_of (doc_fields d') ''stage'' = Some (PStr st) \<and>
          map_of (doc_fields d') ''updated_at'' = Some (PDatetime now)) \<and>
      ((\<forall>d \<in> set (colls s ''candidate''). doc_id d \<noteq> i) \<longrightarrow> s' = s)"
    by (intro exI[of _ ?s'] conjI)
next
  assume "\<forall>v. map_of body' ''stage'' \<noteq> Some (PStr v)"
  then show "\<exists>errs. post_candidate_stage lib cid body' now fault db = (RequestValidationError errs, db)"
    by (rule post_stage_invalid)
qed

text \<open>
  Claim C3, as stated, fails: a body whose stage is the empty string passes validation,
  and the candidate's stage becomes the empty string.
\<close>

theorem candidate_stage_empty_counterexample:
  "fst (post_candidate_stage no_readings ''000000000000000000000000'' [(''stage'', PStr [])] 5 None
     (Some \<lparr>colls = (\<lambda>c. [])(''candidate'' :=
                [\<lparr>doc_id = 0, doc_fields = [(''name'', PStr ''Jo''), (''stage'', PStr ''applied'')]\<rparr>]),
            next_oid = 1\<rparr>)) = Json (PDict [(''status'', PStr ''ok'')]) \<and>
   map_option (\<lambda>s. colls s ''candidate'')
     (snd (post_candidate_stage no_readings ''000000000000000000000000'' [(''stage'', PStr [])] 5 None
        (Some \<lparr>colls = (\<lambda>c. [])(''candidate'' :=
                [\<lparr>doc_id = 0, doc_fields = [(''name'', PStr ''Jo''), (''stage'', PStr ''applied'')]\<rparr>]),
            next_oid = 1\<rparr>))) =
     Some [\<lparr>doc_id = 0, doc_fields =
             [(''name'', PStr ''Jo''), (''stage'', PStr []), (''updated_at'', PDatetime 5)]\<rparr>]"
  by (simp add: ObjectId_zeros post_candidate_stage_def post_def StageUpdate_def
      update_candidate_stage_def getattr_def update_one_def matches_def status_ok_def)

theorem candidate_stage_update_witness:
  "(\<exists>s'. post_candidate_stage no_readings ''000000000000000000000000'' [(''stage'', PStr ''offer'')] 5 None
       (Some \<lparr>colls = (\<lambda>c. [])(''candidate'' :=
                [\<lparr>doc_id = 0, doc_fields = [(''name'', PStr ''Jo''), (''stage'', PStr ''applied'')]\<rparr>]),
            next_oid = 1\<rparr>) = (Json status_ok, Some s') \<and>
      map (\<lambda>d. map_of (doc_fields d) ''stage'') (colls s' ''candidate'') = [Some (PStr ''offer'')] \<and>
      map (\<lambda>d. map_of (doc_fields d) ''updated_at'') (colls s' ''candidate'') =
        [Some (PDatetime 5)]) \<and>
   post_candidate_stage no_readings ''000000000000000000000000'' [(''stage'', PStr ''offer'')] 5 None
     (Some empty_store) = (Json status_ok, Some empty_store) \<and>
   (\<exists>errs. post_candidate_stage no_readings ''000000000000000000000000'' [(''stage'', PInt 3)] 5 None
     (Some empty_store) = (RequestValidationError errs, Some empty_store))"
proof -
  let ?s = "\<lparr>colls = (\<lambda>c. [])(''candidate'' :=
                [\<lparr>doc_id = 0, doc_fields = [(''name'', PStr ''Jo''), (''stage'', PStr ''applied'')]\<rparr>]),
            next_oid = 1\<rparr>"
  let ?cid = "''000000000000000000000000''"
  let ?body = "[(''stage'', PStr ''offer'')]"
  have b: "map_of ?body ''stage'' = Some (PStr ''offer'')" by simp
  have d: "distinct (map doc_id (colls ?s ''candidate''))" by simp
  have d0: "distinct (map doc_id (colls empty_store ''candidate''))"
    by (simp add: empty_store_def)
  have bad: "\<forall>v. map_of [(''stage'', PInt 3)] ''stage'' \<noteq> Some (PStr v)" by simp
  from candidate_stage_update[OF ObjectId_zeros b d, where now = 5]
  obtain s' where r: "post_candidate_stage no_readings ?cid ?body 5 None (Some ?s) = (Json status_ok, Some s')"
    and ids: "map doc_id (colls s' ''candidate'') = map doc_id (colls ?s ''candidate'')"
    and st: "\<forall>d' \<in> set (colls s' ''candidate''). doc_id d' = 0 \<longrightarrow>
          map_of (doc_fields d') ''stage'' = Some (PStr ''offer'') \<and>
          map_of (doc_fields d') ''updated_at'' = Some (PDatetime 5)"
    by blast
  from ids obtain d' where one: "colls s' ''candidate'' = [d']" and "doc_id d' = 0"
    by (cases "colls s' ''candidate''") auto
  with st have "map_of (doc_fields d') ''stage'' = Some (PStr ''offer'')"
    and "map_of (doc_fields d') ''updated_at'' = Some (PDatetime 5)"
    by simp_all
  with r one have 1: "\<exists>s'. post_candidate_stage no_readings ?cid ?body 5 None (Some ?s) = (Json status_ok, Some s') \<and>
      map (\<lambda>d. map_of (doc_fields d) ''stage'') (colls s' ''candidate'') = [Some (PStr ''offer'')] \<and>
      map (\<lambda>d. map_of (doc_fields d) ''updated_at'') (colls s' ''candidate'') =
        [Some (PDatetime 5)]"
    by auto
  from candidate_stage_update[OF ObjectId_zeros b d0, where now = 5
      and body' = "[(''stage'', PInt 3)]" and fault = None and db = "Some empty_store"] bad
  have 2: "post_candidate_stage no_readings ?cid ?body 5 None (Some empty_store) =
      (Json status_ok, Some empty_store)"
    and 3: "\<exists>errs. post_candidate_stage no_readings ?cid [(''stage'', PInt 3)] 5 None
     (Some empty_store) = (RequestValidationError errs, Some empty_store)"
    by (auto simp: empty_store_def)
  from 1 2 3 show ?thesis by blast
qed


section \<open>What a state transition leaves unchanged\<close>

lemma post_stage_frame:
  assumes "post_candidate_stage lib cid body now fault db = (resp, db')"
  shows "(db = None \<and> db' = None) \<or>
     (\<exists>s s'. db = Some s \<and> db' = Some s' \<and>
        (s' = s \<or> (\<exists>i. ObjectId cid = Some i \<and>
            single_update ''candidate'' i [''stage'', ''updated_at''] s s')))"
proof (cases "\<exists>st. map_of body ''stage'' = Some (PStr st)")
  case False
  then have "\<forall>st. map_of body ''stage'' \<noteq> Some (PStr st)" by simp
  from post_stage_invalid[OF this, of lib cid now fault db] assms have "db' = db" by auto
  then show ?thesis by (cases db) auto
next
  case True
  then obtain st where st: "map_of body ''stage'' = Some (PStr st)" by blast
  note run = assms[unfolded post_stage_valid[OF st] update_candidate_stage_cases]
  show ?thesis
  proof (cases db)
    case None
    with run show ?thesis by simp
  next
    case (Some s)
    note s = this
    show ?thesis
    proof (cases "ObjectId cid")
      case None
      with run s show ?thesis by auto
    next
      case (Some i)
      show ?thesis
      proof (cases fault)
        case (Some e)
        with run s \<open>ObjectId cid = Some i\<close> show ?thesis by auto
      next
        case None
        with run s \<open>ObjectId cid = Some i\<close>
        have "db' = Some (update_one ''candidate'' [ById i]
            [(''stage'', PStr st), (''updated_at'', PDatetime now)] s)"
          by simp
        with s \<open>ObjectId cid = Some i\<close> update_one_single[of "''candidate''" i "''stage''"
            "''updated_at''" s "PStr st" "PDatetime now"]
        show ?thesis by simp
      qed
    qed
  qed
qed

lemma post_status_frame:
  assumes "post_offer_status lib oid body now fault db = (resp, db')"
  shows "(db = None \<and> db' = None) \<or>
     (\<exists>s s'. db = Some s \<and> db' = Some s' \<and>
        (s' = s \<or> (\<exists>i. ObjectId oid = Some i \<and>
            single_update ''offer'' i [''status'', ''updated_at''] s s')))"
proof (cases "\<exists>st. map_of body ''status'' = Some (PStr st)")
  case False
  then have "\<forall>st. map_of body ''status'' \<noteq> Some (PStr st)" by simp
  from post_status_invalid[OF this, of lib oid now fault db] assms have "db' = db" by auto
  then show ?thesis by (cases db) auto
next
  case True
  then obtain st where st: "map_of body ''status'' = Some (PStr st)" by blast
  note run = assms[unfolded post_status_valid[OF st] update_offer_status_cases]
  show ?thesis
  proof (cases db)
    case None
    with run show ?thesis by simp
  next
    case (Some s)
    note s = this
    show ?thesis
    proof (cases "ObjectId oid")
      case None
      with run s show ?thesis by auto
    next
      case (Some i)
      show ?thesis
      proof (cases fault)
        case (Some e)
        with run s \<open>ObjectId oid = Some i\<close> show ?thesis by auto
      next
        case None
        with run s \<open>ObjectId oid = Some i\<close>
        have "db' = Some (update_one ''offer'' [ById i]
            [(''status'', PStr st), (''updated_at'', PDatetime now)] s)"
          by simp
        with s \<open>ObjectId oid = Some i\<close> update_one_single[of "''offer''" i "''status''"
            "''updated_at''" s "PStr st" "PDatetime now"]
        show ?thesis by simp
      qed
    qed
  qed
qed

text \<open>
  Claim C9.  Whatever a state-transition endpoint is sent, afterwards the store is as it
  was, or it differs in one document of the candidate (resp. offer) collection, the one
  whose identifier is the id of the path: that document keeps its identifier and every
  field other than stage (resp. status) and \<open>updated_at\<close>; the other documents of the
  collection, the other collections and the identifier counter are unchanged.
\<close>

theorem transition_frame:
  "(post_candidate_stage lib cid body now fault db = (resp, db') \<longrightarrow>
      (db = None \<and> db' = None) \<or>
      (\<exists>s s'. db = Some s \<and> db' = Some s' \<and>
         (s' = s \<or> (\<exists>i. ObjectId cid = Some i \<and>
             single_update ''candidate'' i [''stage'', ''updated_at''] s s')))) \<and>
   (post_offer_status lib cid body now fault db = (resp, db') \<longrightarrow>
      (db = None \<and> db' = None) \<or>
      (\<exists>s s'. db = Some s \<and> db' = Some s' \<and>
         (s' = s \<or> (\<exists>i. ObjectId cid = Some i \<and>
             single_update ''offer'' i [''status'', ''updated_at''] s s'))))"
  using post_stage_frame post_status_frame by blast


theorem transition_frame_witness:
  "(\<exists>s'. post_candidate_stage no_readings ''000000000000000000000000'' [(''stage'', PStr ''offer'')] 5 None
       (Some \<lparr>colls = (\<lambda>c. [])
           (''candidate'' :=
              [\<lparr>doc_id = 0, doc_fields = [(''name'', PStr ''Jo''), (''stage'', PStr ''applied'')]\<rparr>,
               \<lparr>doc_id = 1, doc_fields = [(''name'', PStr ''Al''), (''stage'', PStr ''hired'')]\<rparr>],
            ''offer'' := [\<lparr>doc_id = 2, doc_fields = [(''status'', PStr ''draft'')]\<rparr>]),
          next_oid = 3\<rparr>) = (Json status_ok, Some s') \<and>
      (s' = \<lparr>colls = (\<lambda>c. [])
           (''candidate'' :=
              [\<lparr>doc_id = 0, doc_fields = [(''name'', PStr ''Jo''), (''stage'', PStr ''applied'')]\<rparr>,
               \<lparr>doc_id = 1, doc_fields = [(''name'', PStr ''Al''), (''stage'', PStr ''hired'')]\<rparr>],
            ''offer'' := [\<lparr>doc_id = 2, doc_fields = [(''status'', PStr ''draft'')]\<rparr>]),
          next_oid = 3\<rparr> \<or>
       single_update ''candidate'' 0 [''stage'', ''updated_at'']
         \<lparr>colls = (\<lambda>c. [])
           (''candidate'' :=
              [\<lparr>doc_id = 0, doc_fields = [(''name'', PStr ''Jo''), (''stage'', PStr ''applied'')]\<rparr>,
               \<lparr>doc_id = 1, doc_fields = [(''name'', PStr ''Al''), (''stage'', PStr ''hired'')]\<rparr>],
            ''offer'' := [\<lparr>doc_id = 2, doc_fields = [(''status'', PStr ''draft'')]\<rparr>]),
          next_oid = 3\<rparr> s') \<and>
      colls s' ''candidate'' =
        [\<lparr>doc_id = 0, doc_fields = [(''name'', PStr ''Jo''), (''stage'', PStr ''offer''),
                                     (''updated_at'', PDatetime 5)]\<rparr>,
         \<lparr>doc_id = 1, doc_fields = [(''name'', PStr ''Al''), (''stage'', PStr ''hired'')]\<rparr>] \<and>
      colls s' ''offer'' = [\<lparr>doc_id = 2, doc_fields = [(''status'', PStr ''draft'')]\<rparr>])"
proof -
  let ?s = "\<lparr>colls = (\<lambda>c. [])
           (''candidate'' :=
              [\<lparr>doc_id = 0, doc_fields = [(''name'', PStr ''Jo''), (''stage'', PStr ''applied'')]\<rparr>,
               \<lparr>doc_id = 1, doc_fields = [(''name'', PStr ''Al''), (''stage'', PStr ''hired'')]\<rparr>],
            ''offer'' := [\<lparr>doc_id = 2, doc_fields = [(''status'', PStr ''draft'')]\<rparr>]),
          next_oid = 3\<rparr>"
  let ?s' = "update_one ''candidate'' [ById 0]
      [(''stage'', PStr ''offer''), (''updated_at'', PDatetime 5)] ?s"
  have run: "post_candidate_stage no_readings ''000000000000000000000000'' [(''stage'', PStr ''offer'')] 5 None
      (Some ?s) = (Json status_ok, Some ?s')"
    by (simp add: ObjectId_zeros post_candidate_stage_def post_def StageUpdate_def
        update_candidate_stage_def getattr_def)
  from transition_frame[where cid = "''000000000000000000000000''"
      and body = "[(''stage'', PStr ''offer'')]" and now = 5 and fault = None
      and db = "Some ?s" and resp = "Json status_ok" and db' = "Some ?s'"] run
  have fr: "?s' = ?s \<or> single_update ''candidate'' 0 [''stage'', ''updated_at''] ?s ?s'"
    by (simp add: ObjectId_zeros)
  have c: "colls ?s' ''candidate'' =
        [\<lparr>doc_id = 0, doc_fields = [(''name'', PStr ''Jo''), (''stage'', PStr ''offer''),
                                     (''updated_at'', PDatetime 5)]\<rparr>,
         \<lparr>doc_id = 1, doc_fields = [(''name'', PStr ''Al''), (''stage'', PStr ''hired'')]\<rparr>]"
    by (simp add: update_one_def matches_def)
  have o: "colls ?s' ''offer'' = [\<lparr>doc_id = 2, doc_fields = [(''status'', PStr ''draft'')]\<rparr>]"
    by (simp add: update_one_def)
  from run fr c o show ?thesis
    by (intro exI[of _ ?s'] conjI)
qed


section \<open>Seeding\<close>

lemma create_stmt_some: "create_stmt c d (Some s) = (None, Some (insert_one c d s))"
  by (simp add: create_stmt_def create_document_def)

lemma create_each_some: "create_each c ds (Some s) = (None, Some (fold (insert_one c) ds s))"
  by (induction ds arbitrary: s) (simp_all add: create_stmt_some)

lemma colls_fold_insert_other:
  "c' \<noteq> c \<Longrightarrow> colls (fold (insert_one c) ds s) c' = colls s c'"
  by (induction ds arbitrary: s) (simp_all add: colls_insert_one)

lemma fields_fold_insert:
  "map doc_fields (colls (fold (insert_one c) ds s) c) = map doc_fields (colls s c) @ ds"
  by (induction ds arbitrary: s) (simp_all add: colls_insert_one)

lemma seed_jobs_some:
  "\<exists>s1. seed_jobs t1 t2 (Some s) = (None, Some s1) \<and>
     colls s1 ''job'' \<noteq> [] \<and>
     map doc_fields (colls s1 ''job'') =
       (if colls s ''job'' = [] then sample_jobs t1 t2 else map doc_fields (colls s ''job'')) \<and>
     (\<forall>c. c \<noteq> ''job'' \<longrightarrow> colls s1 c = colls s c) \<and>
     (colls s ''job'' \<noteq> [] \<longrightarrow> s1 = s)"
proof (cases "colls s ''job'' = []")
  case True
  let ?s1 = "fold (insert_one ''job'') (sample_jobs t1 t2) s"
  have run: "seed_jobs t1 t2 (Some s) = (None, Some ?s1)"
    using True by (simp add: seed_jobs_def count_documents_all create_each_some)
  have f: "map doc_fields (colls ?s1 ''job'') = sample_jobs t1 t2"
    using True by (simp add: fields_fold_insert)
  then have "map doc_fields (colls ?s1 ''job'') \<noteq> []"
    by (simp add: sample_jobs_def)
  then have ne: "colls ?s1 ''job'' \<noteq> []"
    by auto
  from run ne f True show ?thesis
    by (intro exI[of _ ?s1]) (simp add: colls_fold_insert_other)
next
  case False
  then have "seed_jobs t1 t2 (Some s) = (None, Some s)"
    by (simp add: seed_jobs_def count_documents_all)
  with False show ?thesis by simp
qed

lemma seed_candidates_some:
  "\<exists>s1. seed_candidates (Some s) = (None, Some s1) \<and>
     colls s1 ''candidate'' \<noteq> [] \<and>
     map doc_fields (colls s1 ''candidate'') =
       (if colls s ''candidate'' = [] then sample_candidates
        else map doc_fields (colls s ''candidate'')) \<and>
     (\<forall>c. c \<noteq> ''candidate'' \<longrightarrow> colls s1 c = colls s c) \<and>
     (colls s ''candidate'' \<noteq> [] \<longrightarrow> s1 = s)"
proof (cases "colls s ''candidate'' = []")
  case True
  let ?s1 = "fold (insert_one ''candidate'') sample_candidates s"
  have run: "seed_candidates (Some s) = (None, Some ?s1)"
    using True by (simp add: seed_candidates_def count_documents_all create_each_some)
  have f: "map doc_fields (colls ?s1 ''candidate'') = sample_candidates"
    using True by (simp add: fields_fold_insert)
  then have "map doc_fields (colls ?s1 ''candidate'') \<noteq> []"
    by (simp add: sample_candidates_def)
  then have ne: "colls ?s1 ''candidate'' \<noteq> []"
    by auto
  from run ne f True show ?thesis
    by (intro exI[of _ ?s1]) (simp add: colls_fold_insert_other)
next
  case False
  then have "seed_candidates (Some s) = (None, Some s)"
    by (simp add: seed_candidates_def count_documents_all)
  with False show ?thesis by simp
qed

lemma seed_interviews_some:
  "\<exists>s1. seed_interviews t3 (Some s) = (None, Some s1) \<and>
     (\<forall>c. c \<noteq> ''interview'' \<longrightarrow> colls s1 c = colls s c) \<and>
     (colls s ''interview'' \<noteq> [] \<longrightarrow> s1 = s) \<and>
     (find_one ''candidate'' [Field ''stage'' (Eq (PStr ''interview''))] s = None \<longrightarrow> s1 = s) \<and>
     (colls s1 ''interview'' = [] \<longrightarrow>
        find_one ''candidate'' [Field ''stage'' (Eq (PStr ''interview''))] s = None) \<and>
     (colls s ''interview'' = [] \<longrightarrow> length (colls s1 ''interview'') \<le> 1)"
proof (cases "colls s ''interview'' = []")
  case False
  then have "seed_interviews t3 (Some s) = (None, Some s)"
    by (simp add: seed_interviews_def count_documents_all)
  with False show ?thesis by simp
next
  case True
  show ?thesis
  proof (cases "find_one ''candidate'' [Field ''stage'' (Eq (PStr ''interview''))] s")
    case None
    with True have "seed_interviews t3 (Some s) = (None, Some s)"
      by (simp add: seed_interviews_def count_documents_all)
    with None True show ?thesis by simp
  next
    case (Some cand)
    let ?s1 = "insert_one ''interview'' (sample_interview cand t3) s"
    from Some True have "seed_interviews t3 (Some s) = (None, Some ?s1)"
      by (simp add: seed_interviews_def count_documents_all create_stmt_some)
    with Some True show ?thesis
      by (intro exI[of _ ?s1]) (simp add: colls_insert_one)
  qed
qed

lemma seed_demo_data_fixed:
  assumes "colls s ''job'' \<noteq> []" and "colls s ''candidate'' \<noteq> []"
    and "colls s ''interview'' = [] \<longrightarrow>
        find_one ''candidate'' [Field ''stage'' (Eq (PStr ''interview''))] s = None"
  shows "seed_demo_data t1 t2 t3 (Some s) = (Json status_ok, Some s)"
proof -
  from seed_jobs_some[of t1 t2 s] assms(1) have j: "seed_jobs t1 t2 (Some s) = (None, Some s)"
    by auto
  from seed_candidates_some[of s] assms(2) have c: "seed_candidates (Some s) = (None, Some s)"
    by auto
  from seed_interviews_some[of t3 s] assms(3) have i: "seed_interviews t3 (Some s) = (None, Some s)"
    by auto
  from j c i show ?thesis
    by (simp add: seed_demo_data_def)
qed

text \<open>
  Claim C6.  Without a store, seeding answers 500.  With a store, seeding answers with
  the status ok; a second seeding, at any later time, also answers ok and leaves the
  store as the first left it, so the numbers of job, candidate and interview documents
  are those after the first call.  The first call fills the job and the candidate
  collection only when it is empty, and leaves a non-empty interview collection as it is.
\<close>

theorem seed_idempotent:
  "seed_demo_data t1 t2 t3 None = (HTTPException 500 (Text ''Database not available''), None) \<and>
   (\<exists>s1 s2.
      seed_demo_data t1 t2 t3 (Some s) = (Json status_ok, Some s1) \<and>
      seed_demo_data t4 t5 t6 (Some s1) = (Json status_ok, Some s2) \<and>
      s2 = s1 \<and>
      count_documents ''job'' [] s2 = count_documents ''job'' [] s1 \<and>
      count_documents ''candidate'' [] s2 = count_documents ''candidate'' [] s1 \<and>
      count_documents ''interview'' [] s2 = count_documents ''interview'' [] s1 \<and>
      map doc_fields (colls s1 ''job'') =
        (if colls s ''job'' = [] then sample_jobs t1 t2 else map doc_fields (colls s ''job'')) \<and>
      map doc_fields (colls s1 ''candidate'') =
        (if colls s ''candidate'' = [] then sample_candidates
         else map doc_fields (colls s ''candidate'')) \<and>
      (colls s ''interview'' \<noteq> [] \<longrightarrow> colls s1 ''interview'' = colls s ''interview'') \<and>
      (colls s ''interview'' = [] \<longrightarrow> length (colls s1 ''interview'') \<le> 1))"
proof
  show "seed_demo_data t1 t2 t3 None = (HTTPException 500 (Text ''Database not available''), None)"
    by (simp add: seed_demo_data_def)
next
  let ?q = "[Field ''stage'' (Eq (PStr ''interview''))]"
  from seed_jobs_some[of t1 t2 s] obtain sj where
    j: "seed_jobs t1 t2 (Some s) = (None, Some sj)"
    and jne: "colls sj ''job'' \<noteq> []"
    and jf: "map doc_fields (colls sj ''job'') =
       (if colls s ''job'' = [] then sample_jobs t1 t2 else map doc_fields (colls s ''job''))"
    and jo: "\<forall>c. c \<noteq> ''job'' \<longrightarrow> colls sj c = colls s c"
    by blast
  from seed_candidates_some[of sj] obtain sc where
    c: "seed_candidates (Some sj) = (None, Some sc)"
    and cne: "colls sc ''candidate'' \<noteq> []"
    and cf: "map doc_fields (colls sc ''candidate'') =
       (if colls sj ''candidate'' = [] then sample_candidates
        else map doc_fields (colls sj ''candidate''))"
    and co: "\<forall>c. c \<noteq> ''candidate'' \<longrightarrow> colls sc c = colls sj c"
    by blast
  from seed_interviews_some[of t3 sc] obtain si where
    i: "seed_interviews t3 (Some sc) = (None, Some si)"
    and io: "\<forall>c. c \<noteq> ''interview'' \<longrightarrow> colls si c = colls sc c"
    and ik: "colls sc ''interview'' \<noteq> [] \<longrightarrow> si = sc"
    and ie: "colls si ''interview'' = [] \<longrightarrow> find_one ''candidate'' ?q sc = None"
    and il: "colls sc ''interview'' = [] \<longrightarrow> length (colls si ''interview'') \<le> 1"
    by blast
  from j c i have first: "seed_demo_data t1 t2 t3 (Some s) = (Json status_ok, Some si)"
    by (simp add: seed_demo_data_def)
  have cj: "colls si ''job'' = colls sj ''job''"
    using io co by simp
  have cc: "colls si ''candidate'' = colls sc ''candidate''"
    using io by simp
  have ci: "colls sc ''interview'' = colls s ''interview''"
    using co jo by simp
  have csj: "colls sj ''candidate'' = colls s ''candidate''"
    using jo by simp
  have "find_one ''candidate'' ?q si = find_one ''candidate'' ?q sc"
    by (simp add: find_one_def cc)
  with ie have nf: "colls si ''interview'' = [] \<longrightarrow> find_one ''candidate'' ?q si = None"
    by simp
  from jne cj have "colls si ''job'' \<noteq> []" by simp
  moreover from cne cc have "colls si ''candidate'' \<noteq> []" by simp
  ultimately have second: "seed_demo_data t4 t5 t6 (Some si) = (Json status_ok, Some si)"
    using nf by (rule seed_demo_data_fixed)
  have f1: "map doc_fields (colls si ''job'') =
        (if colls s ''job'' = [] then sample_jobs t1 t2 else map doc_fields (colls s ''job''))"
    using jf cj by simp
  have f2: "map doc_fields (colls si ''candidate'') =
        (if colls s ''candidate'' = [] then sample_candidates
         else map doc_fields (colls s ''candidate''))"
    using cf cc csj by simp
  have f3: "colls s ''interview'' \<noteq> [] \<longrightarrow> colls si ''interview'' = colls s ''interview''"
    using ik ci by auto
  have f4: "colls s ''interview'' = [] \<longrightarrow> length (colls si ''interview'') \<le> 1"
    using il ci by simp
  from first second f1 f2 f3 f4
  show "\<exists>s1 s2.
      seed_demo_data t1 t2 t3 (Some s) = (Json status_ok, Some s1) \<and>
      seed_demo_data t4 t5 t6 (Some s1) = (Json status_ok, Some s2) \<and>
      s2 = s1 \<and>
      count_documents ''job'' [] s2 = count_documents ''job'' [] s1 \<and>
      count_documents ''candidate'' [] s2 = count_documents ''candidate'' [] s1 \<and>
      count_documents ''interview'' [] s2 = count_documents ''interview'' [] s1 \<and>
      map doc_fields (colls s1 ''job'') =
        (if colls s ''job'' = [] then sample_jobs t1 t2 else map doc_fields (colls s ''job'')) \<and>
      map doc_fields (colls s1 ''candidate'') =
        (if colls s ''candidate'' = [] then sample_candidates
         else map doc_fields (colls s ''candidate'')) \<and>
      (colls s ''interview'' \<noteq> [] \<longrightarrow> colls s1 ''interview'' = colls s ''interview'') \<and>
      (colls s ''interview'' = [] \<longrightarrow> length (colls s1 ''interview'') \<le> 1)"
    by (intro exI[of _ si]) simp
qed


lemma seed_empty_run:
  "map_option (\<lambda>s. (length (colls s ''job''), length (colls s ''candidate''),
        colls s ''interview'', next_oid s))
     (snd (seed_demo_data 0 0 0 (Some empty_store))) =
   Some (2, 3,
     [\<lparr>doc_id = 5, doc_fields =
        [(''candidate_id'', PStr ''000000000000000000000002''),
         (''candidate_name'', PStr ''Jordan Lee''),
         (''interviewer'', PStr ''Alex Johnson''),
         (''time'', PDatetime 14400000000),
         (''status'', PStr ''scheduled''),
         (''meeting_url'', PStr ''https://meet.example.com/abc'')]\<rparr>], 6)"
  by code_simp

theorem seed_idempotent_witness:
  "\<exists>s1. seed_demo_data 0 0 0 (Some empty_store) = (Json status_ok, Some s1) \<and>
     seed_demo_data 9 9 9 (Some s1) = (Json status_ok, Some s1) \<and>
     length (colls s1 ''job'') = 2 \<and>
     length (colls s1 ''candidate'') = 3 \<and>
     length (colls s1 ''interview'') = 1"
proof -
  from seed_idempotent[where s = empty_store and ?t1.0 = 0 and ?t2.0 = 0 and ?t3.0 = 0
      and ?t4.0 = 9 and ?t5.0 = 9 and ?t6.0 = 9]
  obtain s1 where first: "seed_demo_data 0 0 0 (Some empty_store) = (Json status_ok, Some s1)"
    and second: "seed_demo_data 9 9 9 (Some s1) = (Json status_ok, Some s1)"
    by blast
  from seed_empty_run first
  have "length (colls s1 ''job'') = 2" and "length (colls s1 ''candidate'') = 3"
    and "length (colls s1 ''interview'') = 1"
    by simp_all
  with first second show ?thesis by blast
qed


section \<open>Identifiers as text\<close>

lemma length_hexw: "length (hexw k n) = k"
  by (induction k arbitrary: n) simp_all

lemma distinct_hex_digits: "distinct hex_digits"
  by (simp add: hex_digits_def)

lemma length_hex_digits: "length hex_digits = 16"
  by (simp add: hex_digits_def)

lemma hexw_inj:
  "n < 16 ^ k \<Longrightarrow> m < 16 ^ k \<Longrightarrow> hexw k n = hexw k m \<Longrightarrow> n = m"
proof (induction k arbitrary: n m)
  case 0
  then show ?case by simp
next
  case (Suc k)
  from Suc.prems(3) have hd: "hexw k (n div 16) = hexw k (m div 16)"
    and dg: "hex_digits ! (n mod 16) = hex_digits ! (m mod 16)"
    by simp_all
  from Suc.prems(1,2) have "n div 16 < 16 ^ k" and "m div 16 < 16 ^ k"
    by (simp_all add: less_mult_imp_div_less)
  with Suc.IH hd have q: "n div 16 = m div 16" by blast
  have "n mod 16 < length hex_digits" and "m mod 16 < length hex_digits"
    by (simp_all add: length_hex_digits)
  with dg distinct_hex_digits have r: "n mod 16 = m mod 16"
    by (simp add: nth_eq_iff_index_eq)
  have "n = 16 * (n div 16) + n mod 16" by simp
  also have "\<dots> = 16 * (m div 16) + m mod 16" by (simp only: q r)
  also have "\<dots> = m" by simp
  finally show ?case .
qed

lemma oid_str_inj: "n < 16 ^ 24 \<Longrightarrow> m < 16 ^ 24 \<Longrightarrow> oid_str n = oid_str m \<Longrightarrow> n = m"
  unfolding oid_str_def by (rule hexw_inj)

lemma oid_str_nonempty: "oid_str n \<noteq> []"
proof
  assume "oid_str n = []"
  then have "length (oid_str n) = 0" by simp
  then show False by (simp add: oid_str_def length_hexw)
qed

section \<open>Create\<close>

lemma wf_store_insert_one:
  assumes "wf_store s"
  shows "wf_store (insert_one c m s)"
  unfolding wf_store_def
proof (intro conjI allI ballI)
  fix c' d assume "d \<in> set (colls (insert_one c m s) c')"
  then have "d \<in> set (colls s c') \<or> doc_id d = next_oid s"
    by (auto simp: colls_insert_one split: if_splits)
  with assms show "doc_id d < next_oid (insert_one c m s)"
    unfolding wf_store_def by (auto simp: next_oid_insert_one less_Suc_eq)
next
  fix c'
  from assms have d: "distinct (map doc_id (colls s c'))"
    and b: "\<forall>d \<in> set (colls s c'). doc_id d < next_oid s"
    unfolding wf_store_def by simp_all
  from b have "next_oid s \<notin> doc_id ` set (colls s c')"
    by auto
  with d show "distinct (map doc_id (colls (insert_one c m s) c'))"
    by (auto simp: colls_insert_one)
qed

lemma wf_store_empty: "wf_store empty_store"
  by (simp add: wf_store_def empty_store_def)

lemma wf_store_update_one: "wf_store s \<Longrightarrow> wf_store (update_one c q upd s)"
proof -
  assume wf: "wf_store s"
  have n: "next_oid (update_one c q upd s) = next_oid s"
    by (simp add: update_one_def)
  have "set (map doc_id (colls (update_one c q upd s) c')) = set (map doc_id (colls s c'))" for c'
    by (simp only: update_one_ids)
  then have m: "doc_id ` set (colls (update_one c q upd s) c') = doc_id ` set (colls s c')" for c'
    by simp
  show ?thesis
    unfolding wf_store_def
  proof (intro conjI allI ballI)
    fix c' d assume "d \<in> set (colls (update_one c q upd s) c')"
    then have "doc_id d \<in> doc_id ` set (colls s c')" using m by blast
    with wf show "doc_id d < next_oid (update_one c q upd s)"
      unfolding wf_store_def n by auto
  next
    fix c'
    from wf show "distinct (map doc_id (colls (update_one c q upd s) c'))"
      unfolding wf_store_def by (simp add: update_one_ids)
  qed
qed

lemma distinct_oid_strs:
  assumes "wf_store s" and "next_oid s \<le> 16 ^ 24"
  shows "distinct (map (\<lambda>d. oid_str (doc_id d)) (colls s c))"
proof -
  have inj: "inj_on oid_str (set (map doc_id (colls s c)))"
  proof (rule inj_onI)
    fix a b assume "a \<in> set (map doc_id (colls s c))" and "b \<in> set (map doc_id (colls s c))"
      and eq: "oid_str a = oid_str b"
    with assms have "a < 16 ^ 24" and "b < 16 ^ 24"
      unfolding wf_store_def by fastforce+
    then show "a = b" using eq by (rule oid_str_inj)
  qed
  from assms(1) have "distinct (map doc_id (colls s c))"
    unfolding wf_store_def by simp
  with inj have "distinct (map oid_str (map doc_id (colls s c)))"
    by (subst distinct_map) blast
  then show ?thesis
    by (simp add: comp_def)
qed

lemma route_with_list:
  "route_list r \<noteq> None \<Longrightarrow> route_payload r m = m"
  by (cases r) simp_all

text \<open>
  The list handlers, as they are written: without a store they answer the empty list;
  with a store the truth value of the handle raises, and the request is answered with
  status 500.
\<close>

lemma list_handlers:
  "route_list r = Some lst \<Longrightarrow>
   lst None = Json (PList []) \<and> lst (Some s) = InternalServerError NotImplementedError"
  by (cases r)
    (auto simp: list_jobs_def list_candidates_def list_interviews_def list_offers_def
      list_onboarding_def list_messages_def truth_def)

text \<open>
  Claim C2, as amended.  For a route that has a collection, on a well-formed store that
  has a twelve-byte identifier left, a POST with a body that passes validation answers
  with an id that is not empty and that no document of the collection has so far; it
  inserts one document into the collection, under that id, and the ids of the collection
  stay distinct.  The document holds the fields of the request model and no other: a
  field that the body carries holds what validation read from the value submitted, which
  is the value itself for every annotation but \<^verbatim>\<open>datetime\<close>; a field that the body leaves
  out holds its default.  The store stays well-formed.
\<close>

theorem create_inserts_model_fields:
  assumes "wf_store s" and "next_oid s < 16 ^ 24"
    and "validate lib (route_class r) body = Inr m" and "route_list r \<noteq> None"
  shows "\<exists>i s'.
     post_create lib r body (Some s) = (Json (PDict [(''id'', PStr i)]), Some s') \<and>
     i \<noteq> [] \<and> i = oid_str (next_oid s) \<and>
     colls s' (route_collection r) =
       colls s (route_collection r) @ [\<lparr>doc_id = next_oid s, doc_fields = m\<rparr>] \<and>
     (\<forall>d \<in> set (colls s (route_collection r)). oid_str (doc_id d) \<noteq> i) \<and>
     distinct (map (\<lambda>d. oid_str (doc_id d)) (colls s' (route_collection r))) \<and>
     map fst m = map fst (route_class r) \<and>
     (\<forall>k ty d v. (k, ty, d) \<in> set (route_class r) \<longrightarrow> map_of body k = Some v \<longrightarrow>
        coerce lib ty v = map_of m k \<and> (ty \<noteq> Datetime \<longrightarrow> map_of m k = Some v)) \<and>
     (\<forall>k ty d. (k, ty, d) \<in> set (route_class r) \<longrightarrow> map_of body k = None \<longrightarrow>
        (\<exists>w. d = Default w \<and> map_of m k = Some w)) \<and>
     wf_store s'"
proof -
  let ?c = "route_collection r"
  let ?i = "oid_str (next_oid s)"
  let ?s' = "insert_one ?c m s"
  from route_with_list[OF assms(4)] have pay: "route_payload r m = m" .
  from post_create_accepted[OF assms(3), of s] pay
  have run: "post_create lib r body (Some s) = (Json (PDict [(''id'', PStr ?i)]), Some ?s')"
    by simp
  have ne: "?i \<noteq> []"
    by (rule oid_str_nonempty)
  have app: "colls ?s' ?c = colls s ?c @ [\<lparr>doc_id = next_oid s, doc_fields = m\<rparr>]"
    by (simp add: colls_insert_one)
  have wf': "wf_store ?s'"
    using assms(1) by (rule wf_store_insert_one)
  from assms(2) have "next_oid ?s' \<le> 16 ^ 24"
    by (simp only: next_oid_insert_one Suc_leI)
  with wf' have dist: "distinct (map (\<lambda>d. oid_str (doc_id d)) (colls ?s' ?c))"
    by (rule distinct_oid_strs)
  then have "distinct (map (\<lambda>d. oid_str (doc_id d)) (colls s ?c) @ [?i])"
    by (simp only: app map_append list.map document.simps)
  then have nin: "?i \<notin> (\<lambda>d. oid_str (doc_id d)) ` set (colls s ?c)"
    by simp
  have fresh: "\<forall>d \<in> set (colls s ?c). oid_str (doc_id d) \<noteq> ?i"
  proof (intro ballI notI)
    fix d assume "d \<in> set (colls s ?c)" and "oid_str (doc_id d) = ?i"
    then have "?i \<in> (\<lambda>d. oid_str (doc_id d)) ` set (colls s ?c)"
      by (intro rev_image_eqI[of d]) simp_all
    with nin show False by contradiction
  qed
  have names: "map fst m = map fst (route_class r)"
    using assms(3) by (rule validate_names)
  have no_int: "(k, DictStrInt, d) \<notin> set (route_class r)" for k d
    using assms(4)
    by (cases r)
      (auto simp: JobIn_def CandidateIn_def InterviewIn_def OfferIn_def OnboardingTaskIn_def
        MessageIn_def)
  have sub: "\<forall>k ty d v. (k, ty, d) \<in> set (route_class r) \<longrightarrow> map_of body k = Some v \<longrightarrow>
        coerce lib ty v = map_of m k \<and> (ty \<noteq> Datetime \<longrightarrow> map_of m k = Some v)"
  proof (intro allI impI conjI)
    fix k ty d v
    assume mem: "(k, ty, d) \<in> set (route_class r)" and v: "map_of body k = Some v"
    from validate_read[OF assms(3) route_class_distinct mem v]
    show "coerce lib ty v = map_of m k" by simp
    assume dt: "ty \<noteq> Datetime"
    from mem no_int have "ty \<noteq> DictStrInt" by auto
    from validate_submitted[OF assms(3) route_class_distinct mem this dt v]
    show "map_of m k = Some v" .
  qed
  have dfl: "\<forall>k ty d. (k, ty, d) \<in> set (route_class r) \<longrightarrow> map_of body k = None \<longrightarrow>
        (\<exists>w. d = Default w \<and> map_of m k = Some w)"
  proof (intro allI impI)
    fix k ty d
    assume mem: "(k, ty, d) \<in> set (route_class r)" and n: "map_of body k = None"
    from validate_default[OF assms(3) route_class_distinct mem n]
    show "\<exists>w. d = Default w \<and> map_of m k = Some w" .
  qed
  have eq: "?i = oid_str (next_oid s)" by (rule refl)
  from run ne eq app fresh dist names sub dfl wf' show ?thesis
    by (intro exI[of _ ?i] exI[of _ ?s'] conjI)
qed

text \<open>
  Claim C2, as stated, fails: a body field that the request model does not declare
  (here \<^verbatim>\<open>salary\<close>) is not in the document that the POST inserts, so no GET can show it;
  and the GET that follows the POST raises on the truth value of the store handle.
\<close>

theorem create_then_list_counterexample:
  "fst (post_create no_readings Jobs
          [(''title'', PStr ''QA Engineer''), (''department'', PStr ''Engineering''),
           (''owner'', PStr ''Sam''), (''salary'', PStr ''100k'')]
          (Some empty_store)) =
     Json (PDict [(''id'', PStr ''000000000000000000000000'')]) \<and>
   post_create no_readings Jobs
     [(''title'', PStr ''QA Engineer''), (''department'', PStr ''Engineering''),
      (''owner'', PStr ''Sam''), (''salary'', PStr ''100k'')]
     (Some empty_store) =
     return_id (create_document ''job''
       [(''title'', PStr ''QA Engineer''), (''department'', PStr ''Engineering''),
        (''location'', PStr ''Remote''), (''status'', PStr ''open''),
        (''owner'', PStr ''Sam''), (''description'', PNone)]
       (Some empty_store)) \<and>
   map_option (\<lambda>s. colls s ''job'')
     (snd (post_create no_readings Jobs
          [(''title'', PStr ''QA Engineer''), (''department'', PStr ''Engineering''),
           (''owner'', PStr ''Sam''), (''salary'', PStr ''100k'')]
          (Some empty_store))) =
     Some [\<lparr>doc_id = 0, doc_fields =
             [(''title'', PStr ''QA Engineer''), (''department'', PStr ''Engineering''),
              (''location'', PStr ''Remote''), (''status'', PStr ''open''),
              (''owner'', PStr ''Sam''), (''description'', PNone)]\<rparr>] \<and>
   list_jobs (snd (post_create no_readings Jobs
          [(''title'', PStr ''QA Engineer''), (''department'', PStr ''Engineering''),
           (''owner'', PStr ''Sam''), (''salary'', PStr ''100k'')]
          (Some empty_store))) =
     InternalServerError NotImplementedError"
  by (simp add: post_create_def post_def JobIn_def create_job_def model_dump_def
      create_document_def insert_one_def empty_store_def oid_str_0 list_jobs_def truth_def)

theorem create_inserts_model_fields_witness:
  "\<exists>i s'.
     post_create no_readings Jobs
       [(''title'', PStr ''QA Engineer''), (''department'', PStr ''Engineering''),
        (''owner'', PStr ''Sam'')] (Some empty_store) =
       (Json (PDict [(''id'', PStr i)]), Some s') \<and>
     i = ''000000000000000000000000'' \<and>
     colls s' ''job'' =
       [\<lparr>doc_id = 0, doc_fields =
          [(''title'', PStr ''QA Engineer''), (''department'', PStr ''Engineering''),
           (''location'', PStr ''Remote''), (''status'', PStr ''open''),
           (''owner'', PStr ''Sam''), (''description'', PNone)]\<rparr>] \<and>
     wf_store s'"
proof -
  let ?body = "[(''title'', PStr ''QA Engineer''), (''department'', PStr ''Engineering''),
        (''owner'', PStr ''Sam'')]"
  let ?m = "[(''title'', PStr ''QA Engineer''), (''department'', PStr ''Engineering''),
        (''location'', PStr ''Remote''), (''status'', PStr ''open''), (''owner'', PStr ''Sam''),
        (''description'', PNone)]"
  have ok: "validate no_readings (route_class Jobs) ?body = Inr ?m"
    by (simp add: JobIn_def)
  have n: "next_oid empty_store < 16 ^ 24"
    by (simp add: empty_store_def)
  have l: "route_list Jobs \<noteq> None"
    by simp
  from create_inserts_model_fields[OF wf_store_empty n ok l]
  obtain i s' where r: "post_create no_readings Jobs ?body (Some empty_store) =
        (Json (PDict [(''id'', PStr i)]), Some s')"
    and i: "i = oid_str (next_oid empty_store)"
    and c: "colls s' (route_collection Jobs) =
       colls empty_store (route_collection Jobs) @
         [\<lparr>doc_id = next_oid empty_store, doc_fields = ?m\<rparr>]"
    and w: "wf_store s'"
    by (elim exE conjE)
  from i have i': "i = ''000000000000000000000000''"
    by (simp add: empty_store_def oid_str_0)
  from c have c': "colls s' ''job'' = [\<lparr>doc_id = 0, doc_fields = ?m\<rparr>]"
    by (simp add: empty_store_def)
  from r i' c' w show ?thesis
    by (intro exI[of _ i] exI[of _ s'] conjI)
qed


end
